theory Spec2Isabelle
  imports Main "HOL-Library.Sublist"
begin


section \<open>JavaScript values\<close>

text \<open>
  The program (src/template.ts) reads JSON files, merges the parsed values with
  \<open>Object.assign\<close> and writes them back. A value is what \<open>JSON.parse\<close> returns, or
  \<open>undefined\<close> (the value of an absent property). Arrays and plain objects are both
  objects: a list of own enumerable properties in the order \<open>Object.keys\<close> reports them
  (array indices in ascending order first, then the other keys in creation order), tagged
  with the kind of object. An array \<open>[a, b]\<close> is \<open>Obj Array [(''0'', a), (''1'', b)]\<close>.
  Integers stand for the numbers: the program computes with none of them, and the only
  number the runtime produces or inspects is the length of an array or a string.

  The model follows the code on own properties. Where the code reaches into the
  JavaScript runtime, the model stops with the outcome \<open>Unmodelled\<close>, which says nothing
  about what the code does: when it reads a member inherited from a built-in prototype
  (the value is a method or the prototype itself), when it sets \<open>__proto__\<close> to an object
  or to \<open>null\<close> (the prototype of the target changes), and when it sets the \<open>length\<close> of
  an array to anything but a number that keeps or truncates the array at an existing
  element.
\<close>

datatype error =
  TypeError
  | SyntaxError
  | IOError
  | ExecError
  | Error string
  | Unmodelled

datatype kind = Plain | Array

datatype jsv =
  Undefined
  | Null
  | Bool bool
  | Num int
  | Str string
  | Obj kind "(string \<times> jsv) list"

type_synonym props = "(string \<times> jsv) list"

text \<open>\<open>v instanceof Object\<close>: true of plain objects and of arrays.\<close>

fun instanceofObject :: "jsv \<Rightarrow> bool" where
  "instanceofObject (Obj kd ps) = True"
| "instanceofObject v = False"

text \<open>Truthiness, as \<open>!v\<close> and \<open>v || w\<close> test it.\<close>

fun truthy :: "jsv \<Rightarrow> bool" where
  "truthy Undefined = False"
| "truthy Null = False"
| "truthy (Bool b) = b"
| "truthy (Num n) = (n \<noteq> 0)"
| "truthy (Str s) = (s \<noteq> [])"
| "truthy (Obj kd ps) = True"

subsection \<open>Array indices\<close>

text \<open>
  A property key is an array index when it is the canonical decimal numeral of an integer
  below \<open>2^32 - 1\<close>. Such keys are enumerated first, in numeric order.
\<close>

definition isDigit :: "char \<Rightarrow> bool" where
  "isDigit c = (c \<in> set ''0123456789'')"

definition digitsValue :: "string \<Rightarrow> int" where
  "digitsValue k = foldl (\<lambda>n c. 10 * n + (of_char c - 48)) 0 k"

definition arrayIndex :: "string \<Rightarrow> nat option" where
  "arrayIndex k =
     (if k \<noteq> [] \<and> list_all isDigit k \<and> (k = ''0'' \<or> hd k \<noteq> CHR ''0'')
         \<and> digitsValue k < 4294967295
      then Some (nat (digitsValue k)) else None)"

function showNat :: "nat \<Rightarrow> string" where
  "showNat n =
     (if n < 10 then [char_of (48 + n)]
      else showNat (n div 10) @ [char_of (48 + n mod 10)])"
  by pat_completeness auto
termination
  by (relation "measure id") auto

subsection \<open>Reading and writing properties\<close>

text \<open>
  The names of the members of \<open>Object.prototype\<close>, \<open>Array.prototype\<close>,
  \<open>String.prototype\<close>, \<open>Number.prototype\<close> and \<open>Boolean.prototype\<close>. A value inherits
  the members of its own prototype and of \<open>Object.prototype\<close>; the model does not
  tell them apart and treats each of these names as inherited by every value.
\<close>

definition builtinNames :: "string list" where
  "builtinNames =
     [''__proto__'', ''constructor'', ''hasOwnProperty'', ''isPrototypeOf'',
      ''propertyIsEnumerable'', ''toLocaleString'', ''toString'', ''valueOf'',
      ''__defineGetter__'', ''__defineSetter__'', ''__lookupGetter__'', ''__lookupSetter__'',
      ''at'', ''concat'', ''copyWithin'', ''entries'', ''every'', ''fill'', ''filter'', ''find'',
      ''findIndex'', ''findLast'', ''findLastIndex'', ''flat'', ''flatMap'', ''forEach'',
      ''group'', ''groupBy'', ''groupToMap'', ''includes'', ''indexOf'', ''join'', ''keys'',
      ''lastIndexOf'', ''map'', ''pop'', ''push'', ''reduce'', ''reduceRight'', ''reverse'',
      ''shift'', ''slice'', ''some'', ''sort'', ''splice'', ''toReversed'', ''toSorted'',
      ''toSpliced'', ''unshift'', ''values'', ''with'',
      ''anchor'', ''big'', ''blink'', ''bold'', ''charAt'', ''charCodeAt'', ''codePointAt'',
      ''endsWith'', ''fixed'', ''fontcolor'', ''fontsize'', ''isWellFormed'', ''italics'',
      ''link'', ''localeCompare'', ''match'', ''matchAll'', ''normalize'', ''padEnd'',
      ''padStart'', ''repeat'', ''replace'', ''replaceAll'', ''search'', ''small'', ''split'',
      ''startsWith'', ''strike'', ''sub'', ''substr'', ''substring'', ''sup'',
      ''toLocaleLowerCase'', ''toLocaleUpperCase'', ''toLowerCase'', ''toUpperCase'',
      ''toWellFormed'', ''trim'', ''trimEnd'', ''trimLeft'', ''trimRight'', ''trimStart'',
      ''toExponential'', ''toFixed'', ''toPrecision'']"

text \<open>
  The length of an array: one more than its greatest index. Arrays built by
  \<open>JSON.parse\<close> and by writes at indices have no holes at their end.
\<close>

definition arrayLength :: "props \<Rightarrow> nat" where
  "arrayLength ps =
     foldr (\<lambda>p n. case arrayIndex (fst p) of Some i \<Rightarrow> max (Suc i) n | None \<Rightarrow> n) ps 0"

text \<open>
  \<open>o[k]\<close>: reading a property of \<open>undefined\<close> or \<open>null\<close> throws a TypeError. An own
  property gives its value: a string has its characters at its indices, a string and an
  array have their \<open>length\<close>. Otherwise the property is looked up in the prototypes: a
  name of \<open>builtinNames\<close> is outside the model, any other name reads as \<open>undefined\<close>.
\<close>

definition inherited :: "string \<Rightarrow> error + jsv" where
  "inherited k = (if k \<in> set builtinNames then Inl Unmodelled else Inr Undefined)"

fun get :: "jsv \<Rightarrow> string \<Rightarrow> error + jsv" where
  "get Undefined k = Inl TypeError"
| "get Null k = Inl TypeError"
| "get (Bool b) k = inherited k"
| "get (Num n) k = inherited k"
| "get (Str s) k =
     (case arrayIndex k of
        Some i \<Rightarrow> if i < length s then Inr (Str [s ! i]) else Inr Undefined
      | None \<Rightarrow> if k = ''length'' then Inr (Num (int (length s))) else inherited k)"
| "get (Obj kd ps) k =
     (case map_of ps k of
        Some v \<Rightarrow> Inr v
      | None \<Rightarrow>
          if kd = Array \<and> k = ''length'' then Inr (Num (int (arrayLength ps)))
          else inherited k)"

text \<open>
  \<open>o[k] = v\<close> on an object: an existing property keeps its place; a new array index goes
  among the indices in numeric order; any other new key goes last.
\<close>

fun insertIndex :: "nat \<Rightarrow> string \<Rightarrow> jsv \<Rightarrow> props \<Rightarrow> props" where
  "insertIndex i k v [] = [(k, v)]"
| "insertIndex i k v ((k', v') # ps) =
     (case arrayIndex k' of
        Some j \<Rightarrow> if j < i then (k', v') # insertIndex i k v ps else (k, v) # (k', v') # ps
      | None \<Rightarrow> (k, v) # (k', v') # ps)"

definition replaceProp :: "string \<Rightarrow> jsv \<Rightarrow> string \<times> jsv \<Rightarrow> string \<times> jsv" where
  "replaceProp k v p = (if fst p = k then (fst p, v) else p)"

definition setProp :: "string \<Rightarrow> jsv \<Rightarrow> props \<Rightarrow> props" where
  "setProp k v ps =
     (if k \<in> fst ` set ps then map (replaceProp k v) ps
      else case arrayIndex k of
             Some i \<Rightarrow> insertIndex i k v ps
           | None \<Rightarrow> ps @ [(k, v)])"

text \<open>
  The own enumerable properties of a value used as a source of \<open>Object.assign\<close>:
  \<open>undefined\<close>, \<open>null\<close>, booleans and numbers have none, a string has its characters.
\<close>

fun enumProps :: "jsv \<Rightarrow> props" where
  "enumProps (Obj kd ps) = ps"
| "enumProps (Str s) = map (\<lambda>i. (showNat i, Str [s ! i])) [0..<length s]"
| "enumProps v = []"

text \<open>
  \<open>Object.keys(o)\<close> together with the values \<open>o[key]\<close>: as \<open>enumProps\<close>, but
  \<open>undefined\<close> and \<open>null\<close> throw a TypeError.
\<close>

fun objectKeys :: "jsv \<Rightarrow> error + props" where
  "objectKeys Undefined = Inl TypeError"
| "objectKeys Null = Inl TypeError"
| "objectKeys v = Inr (enumProps v)"

text \<open>
  \<open>target[k] = v\<close> as \<open>Object.assign\<close> performs it on an object. Setting the \<open>length\<close>
  of an array to its length changes nothing, and setting it to a smaller number \<open>n\<close>
  removes the elements from index \<open>n\<close> on; the model covers these two cases when the
  array keeps an element at index \<open>n - 1\<close> (or becomes empty). An own property is
  overwritten. For \<open>__proto__\<close> that is not an own property the inherited setter runs: it
  ignores a value that is neither an object nor \<open>null\<close>. Any other key becomes a new own
  property.
\<close>

definition setLength :: "jsv \<Rightarrow> props \<Rightarrow> error + props" where
  "setLength v ps =
     (case v of
        Num n \<Rightarrow>
          if n = int (arrayLength ps) then Inr ps
          else if 0 \<le> n \<and> n < int (arrayLength ps)
                  \<and> (n = 0 \<or> list_ex (\<lambda>p. arrayIndex (fst p) = Some (nat n - 1)) ps)
          then Inr (filter (\<lambda>p. case arrayIndex (fst p) of Some i \<Rightarrow> i < nat n | None \<Rightarrow> True) ps)
          else Inl Unmodelled
      | _ \<Rightarrow> Inl Unmodelled)"

definition assignProp :: "kind \<Rightarrow> string \<Rightarrow> jsv \<Rightarrow> props \<Rightarrow> error + props" where
  "assignProp kd k v ps =
     (if kd = Array \<and> k = ''length'' then setLength v ps
      else if k \<in> fst ` set ps then Inr (setProp k v ps)
      else if k = ''__proto__'' then
        (if instanceofObject v \<or> v = Null then Inl Unmodelled else Inr ps)
      else Inr (setProp k v ps))"

fun assignProps :: "kind \<Rightarrow> props \<Rightarrow> props \<Rightarrow> error + props" where
  "assignProps kd [] ps = Inr ps"
| "assignProps kd ((k, v) # qs) ps =
     (case assignProp kd k v ps of
        Inl e \<Rightarrow> Inl e
      | Inr ps' \<Rightarrow> assignProps kd qs ps')"

text \<open>
  \<open>Object.assign(target, source)\<close>, giving the value the variable \<open>target\<close> holds
  afterwards. \<open>undefined\<close> and \<open>null\<close> throw a TypeError. An object receives the own
  enumerable properties of the source one by one. A primitive is wrapped, the wrapper
  receives the properties and is dropped, so the primitive is unchanged; the wrapper of
  a string refuses a write at one of the string's indices or at \<open>length\<close> (TypeError).
\<close>

definition writesIndexBelow :: "nat \<Rightarrow> props \<Rightarrow> bool" where
  "writesIndexBelow n ps =
     list_ex (\<lambda>(k, v). case arrayIndex k of Some i \<Rightarrow> i < n | None \<Rightarrow> False) ps"

fun objectAssign :: "jsv \<Rightarrow> jsv \<Rightarrow> error + jsv" where
  "objectAssign Undefined s = Inl TypeError"
| "objectAssign Null s = Inl TypeError"
| "objectAssign (Bool b) s = Inr (Bool b)"
| "objectAssign (Num n) s = Inr (Num n)"
| "objectAssign (Str t) s =
     (if writesIndexBelow (length t) (enumProps s) \<or> ''length'' \<in> fst ` set (enumProps s)
      then Inl TypeError else Inr (Str t))"
| "objectAssign (Obj kd ps) s =
     (case assignProps kd (enumProps s) ps of
        Inl e \<Rightarrow> Inl e
      | Inr ps' \<Rightarrow> Inr (Obj kd ps'))"

section \<open>omit and deepMerge\<close>

text \<open>
  \<open>keys.includes(curr)\<close> for the string \<open>curr\<close>: an array is searched for an element equal
  to it, a string for a substring; any other value has no \<open>includes\<close> (TypeError).
\<close>

fun includesStr :: "jsv \<Rightarrow> string \<Rightarrow> error + bool" where
  "includesStr (Obj Array ps) c =
     Inr (list_ex (\<lambda>(k, v). arrayIndex k \<noteq> None \<and> v = Str c) ps)"
| "includesStr (Str s) c = Inr (sublist c s)"
| "includesStr v c = Inl TypeError"

text \<open>
  \<open>omit(keys, obj)\<close> (template.ts 128-134): a reduce over \<open>Object.keys(obj)\<close> that
  copies every property whose key is not in \<open>keys\<close> into a fresh plain object.
\<close>

fun omitReduce :: "jsv \<Rightarrow> props \<Rightarrow> props \<Rightarrow> error + props" where
  "omitReduce keys [] prev = Inr prev"
| "omitReduce keys ((k, x) # rest) prev =
     (case includesStr keys k of
        Inl e \<Rightarrow> Inl e
      | Inr True \<Rightarrow> omitReduce keys rest prev
      | Inr False \<Rightarrow> omitReduce keys rest (setProp k x prev))"

definition omit :: "jsv \<Rightarrow> jsv \<Rightarrow> error + jsv" where
  "omit keys obj =
     (case objectKeys obj of
        Inl e \<Rightarrow> Inl e
      | Inr ps \<Rightarrow> (case omitReduce keys ps [] of Inl e \<Rightarrow> Inl e | Inr r \<Rightarrow> Inr (Obj Plain r)))"

text \<open>
  \<open>deepMerge(target, source)\<close> (template.ts 135-147). The function mutates both
  arguments, so the model returns the pair (target afterwards, source afterwards); the
  JavaScript return value is the first component. \<open>mergeKeys\<close> is the \<open>for\<close> loop over
  \<open>Object.keys(source)\<close>: for a key whose value is an object it calls
  \<open>deepMerge(target[key], source[key])\<close> and assigns the returned value onto
  \<open>source[key]\<close>. The final \<open>Object.assign(target, source)\<close> uses the updated source.
\<close>

fun deepMerge :: "jsv \<Rightarrow> jsv \<Rightarrow> error + (jsv \<times> jsv)"
  and mergeKeys :: "jsv \<Rightarrow> props \<Rightarrow> error + props" where
  "deepMerge target (Obj kd ps) =
     (case mergeKeys target ps of
        Inl e \<Rightarrow> Inl e
      | Inr ps' \<Rightarrow>
          (case objectAssign target (Obj kd ps') of
             Inl e \<Rightarrow> Inl e
           | Inr target' \<Rightarrow> Inr (target', Obj kd ps')))"
| "deepMerge target Undefined = Inl TypeError"
| "deepMerge target Null = Inl TypeError"
| "deepMerge target (Bool b) =
     (case objectAssign target (Bool b) of
        Inl e \<Rightarrow> Inl e | Inr target' \<Rightarrow> Inr (target', Bool b))"
| "deepMerge target (Num n) =
     (case objectAssign target (Num n) of
        Inl e \<Rightarrow> Inl e | Inr target' \<Rightarrow> Inr (target', Num n))"
| "deepMerge target (Str s) =
     (case objectAssign target (Str s) of
        Inl e \<Rightarrow> Inl e | Inr target' \<Rightarrow> Inr (target', Str s))"
| "mergeKeys target [] = Inr []"
| "mergeKeys target ((key, v) # rest) =
     (if instanceofObject v then
        (case get target key of
           Inl e \<Rightarrow> Inl e
         | Inr tv \<Rightarrow>
             (case deepMerge tv v of
                Inl e \<Rightarrow> Inl e
              | Inr (r, v') \<Rightarrow>
                  (case objectAssign v' r of
                     Inl e \<Rightarrow> Inl e
                   | Inr v'' \<Rightarrow>
                       (case mergeKeys target rest of
                          Inl e \<Rightarrow> Inl e
                        | Inr rest' \<Rightarrow> Inr ((key, v'') # rest')))))
      else
        (case mergeKeys target rest of
           Inl e \<Rightarrow> Inl e
         | Inr rest' \<Rightarrow> Inr ((key, v) # rest')))"







section \<open>Paths\<close>

text \<open>
  The functions of Node's POSIX \<open>path\<close> module that the program calls, on strings.
  \<open>splitOn\<close> is \<open>String.prototype.split\<close> with a one-character separator and
  \<open>joinWith\<close> is \<open>Array.prototype.join\<close>.
\<close>

fun splitOn :: "char \<Rightarrow> string \<Rightarrow> string list" where
  "splitOn sep [] = [] # []"
| "splitOn sep (c # cs) =
     (if c = sep then [] # splitOn sep cs
      else (case splitOn sep cs of
              [] \<Rightarrow> [c] # []
            | seg # segs \<Rightarrow> (c # seg) # segs))"

fun joinWith :: "string \<Rightarrow> string list \<Rightarrow> string" where
  "joinWith sep [] = []"
| "joinWith sep [s] = s"
| "joinWith sep (s # t # ss) = s @ sep @ joinWith sep (t # ss)"

text \<open>
  \<open>normalizeString(path, allowAboveRoot)\<close>: empty segments and \<open>.\<close> are dropped; \<open>..\<close>
  removes the segment before it, unless there is none or it is itself \<open>..\<close>, in which
  case \<open>..\<close> is kept when the path may climb above its root and dropped otherwise.
  \<open>res\<close> is the list of segments kept so far, last one first.
\<close>

fun normalizeSegments :: "bool \<Rightarrow> string list \<Rightarrow> string list \<Rightarrow> string list" where
  "normalizeSegments allowAboveRoot res [] = rev res"
| "normalizeSegments allowAboveRoot res (seg # segs) =
     (if seg = [] \<or> seg = ''.'' then normalizeSegments allowAboveRoot res segs
      else if seg = ''..'' then
        (case res of
           lastSeg # earlier \<Rightarrow>
             if lastSeg = ''..'' then
               normalizeSegments allowAboveRoot
                 (if allowAboveRoot then ''..'' # res else res) segs
             else normalizeSegments allowAboveRoot earlier segs
         | [] \<Rightarrow>
             normalizeSegments allowAboveRoot (if allowAboveRoot then [''..''] else []) segs)
      else normalizeSegments allowAboveRoot (seg # res) segs)"

definition normalizeString :: "string \<Rightarrow> bool \<Rightarrow> string" where
  "normalizeString path allowAboveRoot =
     joinWith ''/'' (normalizeSegments allowAboveRoot [] (splitOn CHR ''/'' path))"

definition isAbsolute :: "string \<Rightarrow> bool" where
  "isAbsolute path = (path \<noteq> [] \<and> hd path = CHR ''/'')"

definition normalize :: "string \<Rightarrow> string" where
  "normalize path =
     (if path = [] then ''.''
      else
        let trailingSeparator = (last path = CHR ''/'');
            p = normalizeString path (\<not> isAbsolute path)
        in if p = [] then
             (if isAbsolute path then ''/'' else if trailingSeparator then ''./'' else ''.'')
           else
             (if isAbsolute path then ''/'' else []) @ p @ (if trailingSeparator then ''/'' else []))"

text \<open>\<open>path.join(...paths)\<close>: the non-empty arguments joined by \<open>/\<close>, normalized.\<close>

definition pathJoin :: "string list \<Rightarrow> string" where
  "pathJoin paths =
     (let joined = joinWith ''/'' (filter (\<lambda>p. p \<noteq> []) paths)
      in if joined = [] then ''.'' else normalize joined)"

text \<open>
  \<open>path.dirname(path)\<close>: the path up to the last \<open>/\<close> that is followed by a segment,
  trailing separators ignored. \<open>rest\<close> is what lies to the left of the last segment,
  first character excluded, read backwards.
\<close>

definition dirname :: "string \<Rightarrow> string" where
  "dirname path =
     (if path = [] then ''.''
      else
        let hasRoot = (hd path = CHR ''/'');
            rest = dropWhile (\<lambda>c. c \<noteq> CHR ''/'') (dropWhile (\<lambda>c. c = CHR ''/'') (rev (tl path)));
            end = length rest
        in if rest = [] then (if hasRoot then ''/'' else ''.'')
           else if hasRoot \<and> end = 1 then ''//''
           else take end path)"

text \<open>
  \<open>path.resolve(path)\<close> with one argument; \<open>cwd\<close> is the result of \<open>process.cwd()\<close>,
  an absolute path.
\<close>

definition pathResolve :: "string \<Rightarrow> string \<Rightarrow> string" where
  "pathResolve cwd path =
     (if isAbsolute path then CHR ''/'' # normalizeString (path @ ''/'') False
      else CHR ''/'' # normalizeString (cwd @ ''/'' @ (if path = [] then [] else path @ ''/'')) False)"

subsection \<open>Removing a leading root with a regular expression\<close>

text \<open>
  \<open>templateFile\<close> and \<open>normalFile\<close> evaluate
  \<open>file.replace(new RegExp(`^${location}`), '')\<close>: the root is used as the source of a
  regular expression. For a root made of characters that stand for themselves and of
  dots (which match any character but a line terminator) the match is computed here.
  Any other root is handed to \<open>regExpReplace\<close>, a parameter that stands for the regular
  expression engine and returns the string after replacement, or \<open>None\<close> when the
  pattern is not a regular expression (\<open>SyntaxError\<close>).
\<close>

definition metaChars :: "char list" where
  "metaChars = [CHR 0x5C, CHR ''^'', CHR ''$'', CHR ''*'', CHR ''+'', CHR ''?'', CHR ''('',
     CHR '')'', CHR ''['', CHR '']'', CHR ''{'', CHR ''}'', CHR ''|'']"

definition literalPattern :: "string \<Rightarrow> bool" where
  "literalPattern pat = list_all (\<lambda>c. c \<notin> set metaChars) pat"

definition lineTerminator :: "char \<Rightarrow> bool" where
  "lineTerminator c = (c = CHR 0x0A \<or> c = CHR 0x0D)"

fun matchPrefix :: "string \<Rightarrow> string \<Rightarrow> string option" where
  "matchPrefix [] s = Some s"
| "matchPrefix (p # ps) [] = None"
| "matchPrefix (p # ps) (c # cs) =
     (if p = c \<or> (p = CHR ''.'' \<and> \<not> lineTerminator c) then matchPrefix ps cs else None)"

definition replacePrefix :: "(string \<Rightarrow> string \<Rightarrow> string option) \<Rightarrow> string \<Rightarrow> string \<Rightarrow> error + string" where
  "replacePrefix regExpReplace pat s =
     (if literalPattern pat then
        (case matchPrefix pat s of Some rest \<Rightarrow> Inr rest | None \<Rightarrow> Inr s)
      else
        (case regExpReplace pat s of Some r \<Rightarrow> Inr r | None \<Rightarrow> Inl SyntaxError))"

text \<open>\<open>templateFile(file, location)\<close> (template.ts 116-119).\<close>

definition templateFile :: "(string \<Rightarrow> string \<Rightarrow> string option) \<Rightarrow> string \<Rightarrow> string \<Rightarrow> error + string" where
  "templateFile regExpReplace file location =
     (case replacePrefix regExpReplace location file of
        Inl e \<Rightarrow> Inl e
      | Inr chopped \<Rightarrow> Inr (pathJoin [location, pathJoin [''.template'', chopped]]))"

text \<open>\<open>normalFile(templateFile, templateDir, location)\<close> (template.ts 120-127).\<close>

definition normalFile :: "(string \<Rightarrow> string \<Rightarrow> string option) \<Rightarrow> string \<Rightarrow> string \<Rightarrow> string \<Rightarrow> error + string" where
  "normalFile regExpReplace tFile templateDir location =
     (case replacePrefix regExpReplace templateDir tFile of
        Inl e \<Rightarrow> Inl e
      | Inr chopped \<Rightarrow> Inr (pathJoin [location, chopped]))"

subsection \<open>Paths given by their segments\<close>

text \<open>
  \<open>absPath segs\<close> is the absolute path with the segments \<open>segs\<close>: \<open>/\<close> for none,
  \<open>/a/b\<close> for \<open>[a, b]\<close>. A segment is clean when it can name a directory entry: not
  empty, without \<open>/\<close>, and neither \<open>.\<close> nor \<open>..\<close>. \<open>pathSegments\<close> lists the non-empty
  segments of a path.
\<close>

definition slashed :: "string list \<Rightarrow> string" where
  "slashed segs = concat (map (\<lambda>s. CHR ''/'' # s) segs)"

definition absPath :: "string list \<Rightarrow> string" where
  "absPath segs = (if segs = [] then ''/'' else slashed segs)"

definition cleanSegment :: "string \<Rightarrow> bool" where
  "cleanSegment s = (s \<noteq> [] \<and> CHR ''/'' \<notin> set s \<and> s \<noteq> ''.'' \<and> s \<noteq> ''..'')"

definition pathSegments :: "string \<Rightarrow> string list" where
  "pathSegments path = filter (\<lambda>s. s \<noteq> []) (splitOn CHR ''/'' path)"


section \<open>The file system and the platform\<close>

text \<open>
  The file system is a tree: a directory lists its entries by name, a file holds its
  text. Anything that \<open>Dirent.isDirectory()\<close> does not report as a directory is a file.
  There are no symbolic links, so a path is resolved lexically, against \<open>cwd\<close> when it is
  relative. A path that ends in \<open>/\<close> names a directory, never a file.
\<close>

datatype node = File string | Dir "(string \<times> node) list"

text \<open>
  What the program takes from its platform: the JSON codec (\<open>JSON.parse\<close> returns
  \<open>None\<close> where it throws), the regular expression engine (see \<open>replacePrefix\<close>), the
  effect of running \<open>git -C location clone repo .template\<close> on the file system together
  with whether the command succeeded, and the working directory of the process.
\<close>

record env =
  jsonParse :: "string \<Rightarrow> jsv option"
  jsonStringify :: "jsv \<Rightarrow> string"
  regExpReplace :: "string \<Rightarrow> string \<Rightarrow> string option"
  gitClone :: "jsv \<Rightarrow> string \<Rightarrow> node \<Rightarrow> bool \<times> node"
  cwd :: string

text \<open>
  The state of a run: the file system and the \<open>git clone\<close> commands executed so far,
  each with its repository and its location.
\<close>

record world =
  root :: node
  execs :: "(jsv \<times> string) list"

fun lookup :: "node \<Rightarrow> string list \<Rightarrow> node option" where
  "lookup n [] = Some n"
| "lookup (File c) (s # ss) = None"
| "lookup (Dir es) (s # ss) = (case map_of es s of None \<Rightarrow> None | Some child \<Rightarrow> lookup child ss)"

text \<open>Setting a directory entry: an existing name keeps its place, a new one goes last.\<close>

fun setEntry :: "string \<Rightarrow> node \<Rightarrow> (string \<times> node) list \<Rightarrow> (string \<times> node) list" where
  "setEntry s n [] = [(s, n)]"
| "setEntry s n ((s', n') # es) = (if s' = s then (s, n) # es else (s', n') # setEntry s n es)"

text \<open>
  \<open>putNode ss new fs\<close> puts \<open>new\<close> at the path \<open>ss\<close>, whose parent must be an existing
  directory; \<open>removeNode ss fs\<close> removes the entry at \<open>ss\<close>. Both fail on the root.
\<close>

fun putNode :: "string list \<Rightarrow> node \<Rightarrow> node \<Rightarrow> node option" where
  "putNode [] new n = None"
| "putNode (s # ss) new (File c) = None"
| "putNode [s] new (Dir es) = Some (Dir (setEntry s new es))"
| "putNode (s # t # ss) new (Dir es) =
     (case map_of es s of
        None \<Rightarrow> None
      | Some child \<Rightarrow>
          (case putNode (t # ss) new child of
             None \<Rightarrow> None
           | Some child' \<Rightarrow> Some (Dir (setEntry s child' es))))"

fun removeNode :: "string list \<Rightarrow> node \<Rightarrow> node option" where
  "removeNode [] n = None"
| "removeNode (s # ss) (File c) = None"
| "removeNode [s] (Dir es) =
     (if s \<in> fst ` set es then Some (Dir (filter (\<lambda>(s', n). s' \<noteq> s) es)) else None)"
| "removeNode (s # t # ss) (Dir es) =
     (case map_of es s of
        None \<Rightarrow> None
      | Some child \<Rightarrow>
          (case removeNode (t # ss) child of
             None \<Rightarrow> None
           | Some child' \<Rightarrow> Some (Dir (setEntry s child' es))))"

definition segments :: "env \<Rightarrow> string \<Rightarrow> string list" where
  "segments E path = pathSegments (pathResolve (cwd E) path)"

definition namesDirectory :: "string \<Rightarrow> bool" where
  "namesDirectory path = (path \<noteq> [] \<and> last path = CHR ''/'')"

text \<open>The calls of \<open>fs.promises\<close>; \<open>Inl IOError\<close> is a rejected promise.\<close>

definition readFile :: "env \<Rightarrow> node \<Rightarrow> string \<Rightarrow> error + string" where
  "readFile E fs path =
     (if path = [] \<or> namesDirectory path then Inl IOError
      else case lookup fs (segments E path) of
             Some (File c) \<Rightarrow> Inr c
           | _ \<Rightarrow> Inl IOError)"

definition writeFile :: "env \<Rightarrow> node \<Rightarrow> string \<Rightarrow> string \<Rightarrow> error + node" where
  "writeFile E fs path content =
     (if path = [] \<or> namesDirectory path then Inl IOError
      else case lookup fs (segments E path) of
             Some (Dir es) \<Rightarrow> Inl IOError
           | _ \<Rightarrow>
               (case putNode (segments E path) (File content) fs of
                  None \<Rightarrow> Inl IOError
                | Some fs' \<Rightarrow> Inr fs'))"

definition copyFile :: "env \<Rightarrow> node \<Rightarrow> string \<Rightarrow> string \<Rightarrow> error + node" where
  "copyFile E fs src dest =
     (case readFile E fs src of
        Inl e \<Rightarrow> Inl e
      | Inr content \<Rightarrow> writeFile E fs dest content)"

definition stat :: "env \<Rightarrow> node \<Rightarrow> string \<Rightarrow> error + node" where
  "stat E fs path =
     (if path = [] then Inl IOError
      else case lookup fs (segments E path) of
             Some (File c) \<Rightarrow> if namesDirectory path then Inl IOError else Inr (File c)
           | Some n \<Rightarrow> Inr n
           | None \<Rightarrow> Inl IOError)"

definition mkdir :: "env \<Rightarrow> node \<Rightarrow> string \<Rightarrow> error + node" where
  "mkdir E fs path =
     (if path = [] then Inl IOError
      else case lookup fs (segments E path) of
             Some n \<Rightarrow> Inl IOError
           | None \<Rightarrow>
               (case putNode (segments E path) (Dir []) fs of
                  None \<Rightarrow> Inl IOError
                | Some fs' \<Rightarrow> Inr fs'))"

definition readdir :: "env \<Rightarrow> node \<Rightarrow> string \<Rightarrow> error + (string \<times> node) list" where
  "readdir E fs path =
     (if path = [] then Inl IOError
      else case lookup fs (segments E path) of
             Some (Dir es) \<Rightarrow> Inr es
           | _ \<Rightarrow> Inl IOError)"


section \<open>The program\<close>

definition COMMIT :: string where
  "COMMIT = ''commit''"

definition PULL :: string where
  "PULL = ''pull''"

definition defaultIgnore :: "string list" where
  "defaultIgnore = [''.git'', ''.template'']"

text \<open>Sequencing of steps that may throw: the first error ends the computation.\<close>

definition andThen :: "error + 'a \<Rightarrow> ('a \<Rightarrow> error + 'b) \<Rightarrow> error + 'b" where
  "andThen m f = (case m of Inl e \<Rightarrow> Inl e | Inr x \<Rightarrow> f x)"

fun mapResult :: "('a \<Rightarrow> error + 'b) \<Rightarrow> 'a list \<Rightarrow> error + 'b list" where
  "mapResult f [] = Inr []"
| "mapResult f (x # xs) =
     (case f x of
        Inl e \<Rightarrow> Inl e
      | Inr y \<Rightarrow> (case mapResult f xs of Inl e \<Rightarrow> Inl e | Inr ys \<Rightarrow> Inr (y # ys)))"

subsection \<open>Arrays\<close>

text \<open>
  The elements of an array as \<open>JSON.parse\<close> builds it (no holes), and the array with
  given elements. \<open>arrayElements\<close> is what \<open>v.map\<close> iterates over: only an array has a
  \<open>map\<close> method. \<open>spreadElements\<close> is what \<open>[...v]\<close> iterates over: an array gives its
  elements and a string its characters; nothing else is iterable. \<open>orEmpty\<close> is
  \<open>v || []\<close>.
\<close>

definition elements :: "props \<Rightarrow> jsv list" where
  "elements ps = map snd (filter (\<lambda>(k, v). arrayIndex k \<noteq> None) ps)"

definition mkArray :: "jsv list \<Rightarrow> jsv" where
  "mkArray vs = Obj Array (zip (map showNat [0..<length vs]) vs)"

definition orEmpty :: "jsv \<Rightarrow> jsv" where
  "orEmpty v = (if truthy v then v else Obj Array [])"

fun arrayElements :: "jsv \<Rightarrow> error + jsv list" where
  "arrayElements (Obj Array ps) = Inr (elements ps)"
| "arrayElements v = Inl TypeError"

fun spreadElements :: "jsv \<Rightarrow> error + jsv list" where
  "spreadElements (Obj Array ps) = Inr (elements ps)"
| "spreadElements (Str s) = Inr (map (\<lambda>c. Str [c]) s)"
| "spreadElements v = Inl TypeError"

text \<open>
  The strings among the elements of an array: for a string \<open>name\<close>,
  \<open>ignore.includes(name)\<close> holds exactly when \<open>name\<close> is one of them.
\<close>

fun stringsOf :: "jsv list \<Rightarrow> string list" where
  "stringsOf [] = []"
| "stringsOf (Str s # vs) = s # stringsOf vs"
| "stringsOf (v # vs) = stringsOf vs"

text \<open>An argument of \<open>path.join\<close> must be a string (TypeError otherwise).\<close>

fun asString :: "jsv \<Rightarrow> error + string" where
  "asString (Str s) = Inr s"
| "asString v = Inl TypeError"

subsection \<open>Reading the configuration\<close>

text \<open>\<open>readJson(filePath)\<close> (template.ts 27-34): any failure gives the empty object.\<close>

definition readJson :: "env \<Rightarrow> node \<Rightarrow> string \<Rightarrow> jsv" where
  "readJson E fs filePath =
     (case readFile E fs filePath of
        Inl e \<Rightarrow> Obj Plain []
      | Inr content \<Rightarrow>
          (case jsonParse E content of
             None \<Rightarrow> Obj Plain []
           | Some v \<Rightarrow> v))"

text \<open>\<open>readGitIgnore(filePath)\<close> (template.ts 35-42).\<close>

definition readGitIgnore :: "env \<Rightarrow> node \<Rightarrow> string \<Rightarrow> string list" where
  "readGitIgnore E fs filePath =
     (case readFile E fs filePath of
        Inl e \<Rightarrow> []
      | Inr content \<Rightarrow> filter (\<lambda>i. i \<noteq> []) (splitOn CHR 0x0A content))"

text \<open>
  \<open>config(location)\<close> (template.ts 43-57). The result is the object
  \<open>{...config, ignore}\<close>.
\<close>

definition config :: "env \<Rightarrow> node \<Rightarrow> string \<Rightarrow> error + jsv" where
  "config E fs location =
     (let configPath = pathJoin [location, ''template.json''];
          ignorePath = pathJoin [location, ''.gitignore''];
          config = readJson E fs configPath;
          gitignore = readGitIgnore E fs ignorePath
      in andThen (get config ''source'') (\<lambda>source.
           if \<not> truthy source then Inl (Error ''config is missing source'')
           else
             andThen (get config ''json'') (\<lambda>json.
             andThen (arrayElements (orEmpty json)) (\<lambda>js.
             andThen (mapResult (\<lambda>j. get j ''name'') js) (\<lambda>ignoreJson.
             andThen (get config ''ignore'') (\<lambda>ign.
             andThen (spreadElements (orEmpty ign)) (\<lambda>extra.
               let ignore = map Str gitignore @ ignoreJson @ map Str defaultIgnore @ extra
               in Inr (Obj Plain
                    (setProp ''ignore'' (mkArray ignore)
                       (fold (\<lambda>(k, v). setProp k v) (enumProps config) []))))))))))"

subsection \<open>Walking a directory\<close>

text \<open>
  \<open>files(location, ignore)\<close> (template.ts 58-77). \<open>recursive\<close> reads a directory and
  handles every entry: an ignored name is skipped, a directory is walked, any other entry
  is pushed with its full location. The model takes the entries of a subdirectory from
  the tree. The callbacks run concurrently, so the order of the result is not determined
  by the program; the model lists the entries depth first.
\<close>

fun recursive :: "string list \<Rightarrow> string \<Rightarrow> (string \<times> node) list \<Rightarrow> string list"
  and entry :: "string list \<Rightarrow> string \<Rightarrow> string \<Rightarrow> node \<Rightarrow> string list" where
  "recursive ignore location [] = []"
| "recursive ignore location ((name, n) # entries) =
     entry ignore location name n @ recursive ignore location entries"
| "entry ignore location name (Dir entries) =
     (if name \<in> set ignore then []
      else recursive ignore (pathJoin [location, name]) entries)"
| "entry ignore location name (File c) =
     (if name \<in> set ignore then []
      else [pathJoin [location, name]])"

definition files :: "env \<Rightarrow> node \<Rightarrow> string \<Rightarrow> string list \<Rightarrow> error + string list" where
  "files E fs location ignore =
     (case readdir E fs location of
        Inl e \<Rightarrow> Inl e
      | Inr entries \<Rightarrow> Inr (recursive ignore location entries))"

text \<open>
  To state what the walk returns: \<open>nodesUnder entries\<close> lists every node below a
  directory with the names on the way to it, \<open>fullLocation\<close> joins these names onto the
  location of the directory, as \<open>recursive\<close> does one name at a time, and \<open>kept\<close> holds
  of a file none of whose names is ignored.
\<close>

fun nodesUnder :: "(string \<times> node) list \<Rightarrow> (string list \<times> node) list"
  and nodesAt :: "string \<Rightarrow> node \<Rightarrow> (string list \<times> node) list" where
  "nodesUnder [] = []"
| "nodesUnder ((name, n) # entries) = nodesAt name n @ nodesUnder entries"
| "nodesAt name (Dir entries) =
     ([name], Dir entries) # map (\<lambda>(names, n). (name # names, n)) (nodesUnder entries)"
| "nodesAt name (File c) = [([name], File c)]"

definition fullLocation :: "string \<Rightarrow> string list \<Rightarrow> string" where
  "fullLocation location names = foldl (\<lambda>loc name. pathJoin [loc, name]) location names"

fun isFile :: "node \<Rightarrow> bool" where
  "isFile (File c) = True"
| "isFile (Dir entries) = False"

definition kept :: "string list \<Rightarrow> string list \<times> node \<Rightarrow> bool" where
  "kept ignore p = (isFile (snd p) \<and> list_all (\<lambda>name. name \<notin> set ignore) (fst p))"

subsection \<open>Directories and the template cache\<close>

text \<open>
  \<open>rmdir(location)\<close> (template.ts 78-88) deletes every entry below a directory and then
  the directory: the subtree is removed. It fails when \<open>location\<close> is not a directory.
\<close>

definition rmdir :: "env \<Rightarrow> node \<Rightarrow> string \<Rightarrow> error + node" where
  "rmdir E fs location =
     (case readdir E fs location of
        Inl e \<Rightarrow> Inl e
      | Inr entries \<Rightarrow>
          (case removeNode (segments E location) fs of
             None \<Rightarrow> Inl IOError
           | Some fs' \<Rightarrow> Inr fs'))"

text \<open>
  \<open>mkdirp(location)\<close> (template.ts 89-106): every prefix of the resolved path, except
  \<open>/\<close>, is created unless \<open>stat\<close> finds it.
\<close>

fun mkdirSegments :: "env \<Rightarrow> node \<Rightarrow> string list \<Rightarrow> error + node" where
  "mkdirSegments E fs [] = Inr fs"
| "mkdirSegments E fs (segment # rest) =
     (case stat E fs segment of
        Inr n \<Rightarrow> mkdirSegments E fs rest
      | Inl e \<Rightarrow>
          (case mkdir E fs segment of
             Inl e' \<Rightarrow> Inl e'
           | Inr fs' \<Rightarrow> mkdirSegments E fs' rest))"

definition mkdirp :: "env \<Rightarrow> node \<Rightarrow> string \<Rightarrow> error + node" where
  "mkdirp E fs location =
     (let locationSplit = splitOn CHR ''/'' (pathResolve (cwd E) location)
      in mkdirSegments E fs
           (filter (\<lambda>i. i \<noteq> ''/'')
              (map (\<lambda>index. pathJoin (''/'' # take (index + 1) locationSplit))
                 [0..<length locationSplit])))"

text \<open>
  \<open>clone(repo, location)\<close> (template.ts 107-115): the old cache is removed, a failure
  to do so is ignored, and \<open>git clone\<close> runs.
\<close>

definition clone :: "env \<Rightarrow> world \<Rightarrow> jsv \<Rightarrow> string \<Rightarrow> (error + unit) \<times> world" where
  "clone E w repo location =
     (let templateDir = pathJoin [location, ''.template''];
          fs1 = (case rmdir E (root w) templateDir of Inl e \<Rightarrow> root w | Inr fs' \<Rightarrow> fs');
          (ok, fs2) = gitClone E repo location fs1;
          w' = \<lparr>root = fs2, execs = execs w @ [(repo, location)]\<rparr>
      in (if ok then Inr () else Inl ExecError, w'))"

subsection \<open>Merging the JSON files\<close>

text \<open>
  \<open>writeJson\<close> is the tail shared by the two branches of the callback of \<open>mergeJson\<close>:
  \<open>JSON.stringify\<close>, \<open>mkdirp\<close> of the directory and \<open>writeFile\<close>.
  \<open>mergeJsonFile\<close> is the callback (template.ts 150-170) for one entry of the \<open>json\<close>
  list. Both return the file system they leave, also when they throw.
\<close>

definition writeJson :: "env \<Rightarrow> node \<Rightarrow> string \<Rightarrow> jsv \<Rightarrow> (error + unit) \<times> node" where
  "writeJson E fs path json =
     (let output = jsonStringify E json
      in case mkdirp E fs (dirname path) of
           Inl e \<Rightarrow> (Inl e, fs)
         | Inr fs1 \<Rightarrow>
             (case writeFile E fs1 path output of
                Inl e \<Rightarrow> (Inl e, fs1)
              | Inr fs2 \<Rightarrow> (Inr (), fs2)))"

definition mergeJsonFile :: "env \<Rightarrow> node \<Rightarrow> string \<Rightarrow> string \<Rightarrow> jsv \<Rightarrow> (error + unit) \<times> node" where
  "mergeJsonFile E fs location cmd jsonFile =
     (case
        andThen (get jsonFile ''ignoreKeys'') (\<lambda>ignoreKeys.
        andThen (get jsonFile ''name'') (\<lambda>name.
        andThen (asString name) (\<lambda>name.
          let file = pathJoin [location, name] in
          andThen (templateFile (regExpReplace E) file location) (\<lambda>tFile.
            let fileJSON = readJson E fs file;
                templateFileJSON = readJson E fs tFile in
            andThen (omit ignoreKeys fileJSON) (\<lambda>iFileJSON.
            andThen (omit ignoreKeys templateFileJSON) (\<lambda>iTemplateFileJSON.
              Inr (file, tFile, fileJSON, templateFileJSON, iFileJSON, iTemplateFileJSON)))))))
      of
        Inl e \<Rightarrow> (Inl e, fs)
      | Inr (file, tFile, fileJSON, templateFileJSON, iFileJSON, iTemplateFileJSON) \<Rightarrow>
          if cmd = COMMIT then
            (case deepMerge templateFileJSON iFileJSON of
               Inl e \<Rightarrow> (Inl e, fs)
             | Inr (json, s) \<Rightarrow> writeJson E fs tFile json)
          else if cmd = PULL then
            (case deepMerge fileJSON iTemplateFileJSON of
               Inl e \<Rightarrow> (Inl e, fs)
             | Inr (json, s) \<Rightarrow> writeJson E fs file json)
          else (Inr (), fs))"

text \<open>
  \<open>mergeJson(json, location, cmd)\<close> (template.ts 148-172). The promises of the entries
  are run one after the other, in the order of the list, up to the first one that
  rejects. The code starts them all at once and, when one rejects, lets the others run to
  their end: with an error the model returns the file system at the first rejection, and
  the writes of the entries after it are not in it.
\<close>

fun mergeJsonFiles :: "env \<Rightarrow> node \<Rightarrow> string \<Rightarrow> string \<Rightarrow> jsv list \<Rightarrow> (error + unit) \<times> node" where
  "mergeJsonFiles E fs location cmd [] = (Inr (), fs)"
| "mergeJsonFiles E fs location cmd (jsonFile # rest) =
     (case mergeJsonFile E fs location cmd jsonFile of
        (Inl e, fs') \<Rightarrow> (Inl e, fs')
      | (Inr u, fs') \<Rightarrow> mergeJsonFiles E fs' location cmd rest)"

definition mergeJson :: "env \<Rightarrow> node \<Rightarrow> jsv \<Rightarrow> string \<Rightarrow> string \<Rightarrow> (error + unit) \<times> node" where
  "mergeJson E fs json location cmd =
     (case arrayElements (orEmpty json) of
        Inl e \<Rightarrow> (Inl e, fs)
      | Inr jsonFiles \<Rightarrow> mergeJsonFiles E fs location cmd jsonFiles)"

subsection \<open>The two directions\<close>

text \<open>
  The copy loops of \<open>main\<close> (template.ts 179-183 and 189-193), run in the order of the
  list up to the first failure. The code starts all copies at once and, when one fails,
  lets the others run to their end: with an error the model returns the file system at
  the first failure, and the copies after it are not in it.
\<close>

fun commitFiles :: "env \<Rightarrow> node \<Rightarrow> string \<Rightarrow> string list \<Rightarrow> (error + unit) \<times> node" where
  "commitFiles E fs location [] = (Inr (), fs)"
| "commitFiles E fs location (file # rest) =
     (case templateFile (regExpReplace E) file location of
        Inl e \<Rightarrow> (Inl e, fs)
      | Inr tFile \<Rightarrow>
          (case mkdirp E fs (dirname tFile) of
             Inl e \<Rightarrow> (Inl e, fs)
           | Inr fs1 \<Rightarrow>
               (case copyFile E fs1 file tFile of
                  Inl e \<Rightarrow> (Inl e, fs1)
                | Inr fs2 \<Rightarrow> commitFiles E fs2 location rest)))"

fun pullFiles :: "env \<Rightarrow> node \<Rightarrow> string \<Rightarrow> string \<Rightarrow> string list \<Rightarrow> (error + unit) \<times> node" where
  "pullFiles E fs templateDir location [] = (Inr (), fs)"
| "pullFiles E fs templateDir location (tFile # rest) =
     (case normalFile (regExpReplace E) tFile templateDir location of
        Inl e \<Rightarrow> (Inl e, fs)
      | Inr file \<Rightarrow>
          (case mkdirp E fs (dirname file) of
             Inl e \<Rightarrow> (Inl e, fs)
           | Inr fs1 \<Rightarrow>
               (case copyFile E fs1 tFile file of
                  Inl e \<Rightarrow> (Inl e, fs1)
                | Inr fs2 \<Rightarrow> pullFiles E fs2 templateDir location rest)))"

text \<open>
  \<open>main(location, cmd)\<close> (template.ts 173-197). \<open>field\<close> reads one name of the
  destructuring \<open>{source, ignore, json}\<close> of the object that \<open>config\<close> returned.
\<close>

definition field :: "jsv \<Rightarrow> string \<Rightarrow> jsv" where
  "field v k = (case get v k of Inl e \<Rightarrow> Undefined | Inr x \<Rightarrow> x)"

definition ignoreNames :: "jsv \<Rightarrow> string list" where
  "ignoreNames ignore = stringsOf (elements (enumProps ignore))"

definition main :: "env \<Rightarrow> world \<Rightarrow> string \<Rightarrow> string \<Rightarrow> (error + unit) \<times> world" where
  "main E w location cmd =
     (case config E (root w) location of
        Inl e \<Rightarrow> (Inl e, w)
      | Inr cfg \<Rightarrow>
          (let source = field cfg ''source'';
               ignore = field cfg ''ignore'';
               json = field cfg ''json''
           in case clone E w source location of
                (Inl e, w1) \<Rightarrow> (Inl e, w1)
              | (Inr u, w1) \<Rightarrow>
                  (case mergeJson E (root w1) json location cmd of
                     (Inl e, fs2) \<Rightarrow> (Inl e, w1\<lparr>root := fs2\<rparr>)
                   | (Inr u, fs2) \<Rightarrow>
                       if cmd = COMMIT then
                         (case files E fs2 location (ignoreNames ignore) of
                            Inl e \<Rightarrow> (Inl e, w1\<lparr>root := fs2\<rparr>)
                          | Inr fl \<Rightarrow>
                              (case commitFiles E fs2 location fl of
                                 (r, fs3) \<Rightarrow> (r, w1\<lparr>root := fs3\<rparr>)))
                       else if cmd = PULL then
                         (let templateDir = pathJoin [location, ''.template'']
                          in case files E fs2 templateDir (ignoreNames ignore) of
                               Inl e \<Rightarrow> (Inl e, w1\<lparr>root := fs2\<rparr>)
                             | Inr fl \<Rightarrow>
                                 (case pullFiles E fs2 templateDir location fl of
                                    (r, fs3) \<Rightarrow> (r, w1\<lparr>root := fs3\<rparr>)))
                       else (Inl (Error ''invalid sub-command''), w1\<lparr>root := fs2\<rparr>))))"


section \<open>Example platforms\<close>

text \<open>
  A platform for the examples: \<open>JSON.parse\<close> knows the documents of a table,
  \<open>JSON.stringify\<close> returns the text the table has for a value, no regular expression
  beyond the literal ones is needed, and the working directory is \<open>/\<close>. \<open>checkout\<close> is a
  \<open>git clone\<close> that succeeds and leaves the given tree in \<open>.template\<close> under \<open>/proj\<close>.
\<close>

definition tableStringify :: "(string \<times> jsv) list \<Rightarrow> jsv \<Rightarrow> string" where
  "tableStringify docs v = (case find (\<lambda>d. snd d = v) docs of Some d \<Rightarrow> fst d | None \<Rightarrow> [])"

definition tableEnv :: "(string \<times> jsv) list \<Rightarrow> (jsv \<Rightarrow> string \<Rightarrow> node \<Rightarrow> bool \<times> node) \<Rightarrow> env" where
  "tableEnv docs git =
     \<lparr>jsonParse = map_of docs, jsonStringify = tableStringify docs,
      regExpReplace = (\<lambda>pat s. None), gitClone = git, cwd = ''/''\<rparr>"

definition checkout :: "node \<Rightarrow> jsv \<Rightarrow> string \<Rightarrow> node \<Rightarrow> bool \<times> node" where
  "checkout tree repo location fs =
     (True, case putNode [''proj'', ''.template''] tree fs of Some fs' \<Rightarrow> fs' | None \<Rightarrow> fs)"

text \<open>
  \<open>pkgSpec keys\<close> is the \<open>json\<close> list with the one entry
  \<open>{"name": "pkg.json", "ignoreKeys": keys}\<close>.
  The scenario of the specification: the configuration
  \<open>{"source": "repo-url", "json": [{"name": "pkg.json", "ignoreKeys": ["version"]}]}\<close>,
  the project file \<open>{"version": "1.0.0", "name": "app"}\<close> and the template file
  \<open>{"version": "0.9.0", "name": "template-app", "license": "MIT"}\<close>.
\<close>

definition pkgSpec :: "jsv \<Rightarrow> jsv" where
  "pkgSpec keys =
     Obj Array [(''0'', Obj Plain [(''name'', Str ''pkg.json''), (''ignoreKeys'', keys)])]"

definition scenarioJson :: jsv where
  "scenarioJson = pkgSpec (Obj Array [(''0'', Str ''version'')])"

definition scenarioConfig :: jsv where
  "scenarioConfig = Obj Plain [(''source'', Str ''repo-url''), (''json'', scenarioJson)]"

definition scenarioProject :: jsv where
  "scenarioProject = Obj Plain [(''version'', Str ''1.0.0''), (''name'', Str ''app'')]"

definition scenarioTemplate :: jsv where
  "scenarioTemplate =
     Obj Plain [(''version'', Str ''0.9.0''), (''name'', Str ''template-app''),
                (''license'', Str ''MIT'')]"

definition scenarioMerged :: jsv where
  "scenarioMerged =
     Obj Plain [(''version'', Str ''0.9.0''), (''name'', Str ''app''), (''license'', Str ''MIT'')]"

text \<open>
  The project directory \<open>/proj\<close> with its configuration file, its \<open>pkg.json\<close> and a
  template cache holding the template's \<open>pkg.json\<close>, each with the given text.
\<close>

definition scenarioFs :: "string \<Rightarrow> string \<Rightarrow> string \<Rightarrow> node" where
  "scenarioFs configText projectText templateText =
     Dir [(''proj'', Dir [(''template.json'', File configText),
                          (''pkg.json'', File projectText),
                          (''.template'', Dir [(''pkg.json'', File templateText)])])]"

definition scenarioEnv :: env where
  "scenarioEnv =
     tableEnv [(''<config>'', scenarioConfig), (''<project>'', scenarioProject),
               (''<template>'', scenarioTemplate), (''<merged>'', scenarioMerged)]
       (checkout (Dir [(''pkg.json'', File ''<template>'')]))"


section \<open>Properties of property lists\<close>

lemma fst_replaceProp [simp]: "fst (replaceProp k v p) = fst p"
  by (simp add: replaceProp_def)


lemma keys_replace [simp]: "map fst (map (replaceProp k v) ps) = map fst ps"
  by (simp add: comp_def)









































section \<open>Properties of the path functions\<close>

lemma splitOn_nonempty [simp]: "splitOn c xs \<noteq> []"
  by (induction xs) (auto split: list.splits)

lemma splitOn_append: "splitOn c (xs @ c # ys) = splitOn c xs @ splitOn c ys"
  by (induction xs) (auto split: list.splits)

lemma splitOn_nosep: "c \<notin> set xs \<Longrightarrow> splitOn c xs = [xs]"
  by (induction xs) auto

lemma splitOn_slashed:
  "\<forall>s \<in> set segs. CHR ''/'' \<notin> set s \<Longrightarrow> splitOn CHR ''/'' (slashed segs) = [] # segs"
proof (induction segs)
  case Nil
  show ?case by (simp add: slashed_def)
next
  case (Cons s segs)
  have "slashed (s # segs) = CHR ''/'' # s @ slashed segs" by (simp add: slashed_def)
  show ?case
  proof (cases segs)
    case Nil
    then show ?thesis using Cons.prems by (simp add: slashed_def splitOn_nosep)
  next
    case (Cons t ts)
    then have "slashed (s # segs) = [] @ CHR ''/'' # (s @ CHR ''/'' # (t @ slashed ts))"
      by (simp add: slashed_def)
    moreover have "splitOn CHR ''/'' (s @ CHR ''/'' # (t @ slashed ts)) = [s] @ splitOn CHR ''/'' (t @ slashed ts)"
      using Cons.prems by (simp only: splitOn_append) (simp add: splitOn_nosep)
    moreover have "splitOn CHR ''/'' (CHR ''/'' # t @ slashed ts) = [] # splitOn CHR ''/'' (t @ slashed ts)"
      by simp
    moreover have "slashed segs = CHR ''/'' # t @ slashed ts" using Cons by (simp add: slashed_def)
    ultimately show ?thesis using Cons.IH Cons.prems by simp
  qed
qed

lemma pathSegments_append:
  "pathSegments (a @ CHR ''/'' # b) = pathSegments a @ pathSegments b"
  by (simp add: pathSegments_def splitOn_append)

lemma pathSegments_Nil [simp]: "pathSegments [] = []"
  by (simp add: pathSegments_def)

lemma pathSegments_slash [simp]: "pathSegments (CHR ''/'' # s) = pathSegments s"
  by (simp add: pathSegments_def)

lemma pathSegments_slashed:
  "list_all cleanSegment segs \<Longrightarrow> pathSegments (slashed segs) = segs"
proof -
  assume c: "list_all cleanSegment segs"
  then have "\<forall>s \<in> set segs. CHR ''/'' \<notin> set s" by (auto simp: list_all_iff cleanSegment_def)
  then have "splitOn CHR ''/'' (slashed segs) = [] # segs" by (rule splitOn_slashed)
  moreover have "filter (\<lambda>s. s \<noteq> []) segs = segs"
    using c by (auto simp: list_all_iff cleanSegment_def intro: filter_True)
  ultimately show ?thesis by (simp add: pathSegments_def)
qed

lemma slashed_Cons: "slashed (s # segs) = CHR ''/'' # s @ slashed segs"
  by (simp add: slashed_def)

lemma slashed_join: "segs \<noteq> [] \<Longrightarrow> CHR ''/'' # joinWith ''/'' segs = slashed segs"
proof (induction segs)
  case Nil
  then show ?case by simp
next
  case (Cons s segs)
  show ?case
  proof (cases segs)
    case Nil
    then show ?thesis by (simp add: slashed_def)
  next
    case (Cons t ts)
    with Cons.IH have "CHR ''/'' # joinWith ''/'' (t # ts) = slashed (t # ts)" by simp
    then show ?thesis using Cons by (simp add: slashed_Cons)
  qed
qed

lemma slashed_append: "slashed (xs @ ys) = slashed xs @ slashed ys"
  by (simp add: slashed_def)

lemma last_slashed:
  "segs \<noteq> [] \<Longrightarrow> last segs \<noteq> [] \<Longrightarrow> last (slashed segs) = last (last segs)"
  by (induction segs) (auto simp: slashed_Cons slashed_def)

lemma slashed_nonempty: "segs \<noteq> [] \<Longrightarrow> slashed segs \<noteq> []"
  by (cases segs) (simp_all add: slashed_Cons)

lemma normalizeSegments_clean:
  "\<forall>s \<in> set xs. s = [] \<or> cleanSegment s \<Longrightarrow>
   normalizeSegments b res xs = rev res @ filter (\<lambda>s. s \<noteq> []) xs"
  by (induction xs arbitrary: res) (auto simp: cleanSegment_def)

lemma normalizeString_clean:
  assumes "list_all cleanSegment (pathSegments s)"
  shows "normalizeString s b = joinWith ''/'' (pathSegments s)"
proof -
  have "\<forall>x \<in> set (splitOn CHR ''/'' s). x = [] \<or> cleanSegment x"
    using assms by (auto simp: pathSegments_def list_all_iff)
  then show ?thesis by (simp add: normalizeString_def normalizeSegments_clean pathSegments_def)
qed

lemma normalize_clean:
  assumes c: "list_all cleanSegment (pathSegments s)" and ne: "pathSegments s \<noteq> []"
    and l: "last s \<noteq> CHR ''/''"
  shows "normalize s = (if isAbsolute s then slashed (pathSegments s) else joinWith ''/'' (pathSegments s))"
proof -
  from ne have s: "s \<noteq> []" by auto
  have j: "CHR ''/'' # joinWith ''/'' (pathSegments s) = slashed (pathSegments s)"
    using ne by (rule slashed_join)
  from ne obtain x xs where xs: "pathSegments s = x # xs" by (cases "pathSegments s") auto
  with c have "x \<noteq> []" by (simp add: cleanSegment_def)
  then have "slashed (pathSegments s) \<noteq> ''/''" by (cases x) (simp_all add: xs slashed_Cons)
  with j have "joinWith ''/'' (pathSegments s) \<noteq> []" by auto
  then show ?thesis using s l j
    by (simp add: normalize_def normalizeString_clean[OF c] Let_def)
qed


lemma matchPrefix_self: "matchPrefix p (p @ r) = Some r"
  by (induction p) auto

lemma last_not_slash_clean:
  "list_all cleanSegment segs \<Longrightarrow> segs \<noteq> [] \<Longrightarrow> last (slashed segs) \<noteq> CHR ''/''"
proof -
  assume c: "list_all cleanSegment segs" and ne: "segs \<noteq> []"
  then have l: "cleanSegment (last segs)" by (simp add: list_all_iff)
  then have "last segs \<noteq> []" by (simp add: cleanSegment_def)
  then have "last (slashed segs) = last (last segs)" using ne by (simp add: last_slashed)
  moreover have "last (last segs) \<in> set (last segs)" using \<open>last segs \<noteq> []\<close> by simp
  moreover have "CHR ''/'' \<notin> set (last segs)" using l by (simp add: cleanSegment_def)
  ultimately show ?thesis by metis
qed

lemma isAbsolute_slashed: "segs \<noteq> [] \<Longrightarrow> isAbsolute (slashed segs @ r)"
  by (cases segs) (simp_all add: isAbsolute_def slashed_Cons)

lemma cleanSegment_template: "cleanSegment ''.template''"
  by (simp add: cleanSegment_def)

lemma pathJoin_root:
  assumes rs: "list_all cleanSegment rs" and c: "list_all cleanSegment (pathSegments b)"
    and l: "b = [] \<or> last b \<noteq> CHR ''/''"
  shows "pathJoin [absPath rs, b] = absPath (rs @ pathSegments b)"
proof (cases "b = []")
  case True
  show ?thesis
  proof (cases "rs = []")
    case True
    with \<open>b = []\<close> show ?thesis
      by (simp add: pathJoin_def absPath_def normalize_def normalizeString_def isAbsolute_def)
  next
    case False
    have c': "list_all cleanSegment (pathSegments (slashed rs))"
      using rs by (simp add: pathSegments_slashed)
    have ne': "pathSegments (slashed rs) \<noteq> []" using rs False by (simp add: pathSegments_slashed)
    have "isAbsolute (slashed rs)" using isAbsolute_slashed[OF False, of "[]"] by simp
    then have "normalize (slashed rs) = slashed rs"
      using normalize_clean[OF c' ne' last_not_slash_clean[OF rs False]] rs
      by (simp add: pathSegments_slashed)
    with False \<open>b = []\<close> show ?thesis
      by (simp add: pathJoin_def absPath_def slashed_nonempty)
  qed
next
  case False
  with l have lb: "last b \<noteq> CHR ''/''" by simp
  have a: "absPath rs \<noteq> []" by (simp add: absPath_def slashed_nonempty)
  have abs: "isAbsolute (absPath rs @ CHR ''/'' # b)"
    using isAbsolute_slashed[of rs] by (cases "rs = []") (simp_all add: absPath_def isAbsolute_def)
  have segs: "pathSegments (absPath rs @ CHR ''/'' # b) = rs @ pathSegments b"
    using rs by (cases "rs = []") (simp_all add: pathSegments_append absPath_def pathSegments_slashed)
  have "pathSegments b \<noteq> []"
  proof
    assume e: "pathSegments b = []"
    then have "\<forall>x \<in> set (splitOn CHR ''/'' b). x = []" by (auto simp: pathSegments_def filter_empty_conv)
    moreover have "last (splitOn CHR ''/'' b) \<noteq> []" using False lb
    proof (induction b)
      case Nil
      then show ?case by simp
    next
      case (Cons x xs)
      then show ?case by (cases "xs = []") (auto split: list.splits)
    qed
    ultimately show False by (metis last_in_set splitOn_nonempty)
  qed
  then have ne: "rs @ pathSegments b \<noteq> []" by simp
  have c': "list_all cleanSegment (pathSegments (absPath rs @ CHR ''/'' # b))"
    using rs c by (simp add: segs)
  have ne': "pathSegments (absPath rs @ CHR ''/'' # b) \<noteq> []" using ne by (simp add: segs)
  have l': "last (absPath rs @ CHR ''/'' # b) \<noteq> CHR ''/''" using lb False by simp
  have "normalize (absPath rs @ CHR ''/'' # b) = slashed (rs @ pathSegments b)"
    using normalize_clean[OF c' ne' l'] abs by (simp add: segs)
  moreover have "pathJoin [absPath rs, b] = normalize (absPath rs @ CHR ''/'' # b)"
    using False a by (simp add: pathJoin_def)
  moreover have "absPath (rs @ pathSegments b) = slashed (rs @ pathSegments b)"
    using ne by (simp only: absPath_def if_False)
  ultimately show ?thesis by simp
qed

lemma pathJoin_template:
  assumes c: "list_all cleanSegment (pathSegments b)" and l: "b = [] \<or> last b \<noteq> CHR ''/''"
  shows "pathJoin [''.template'', b] = joinWith ''/'' (''.template'' # pathSegments b)"
proof (cases "b = []")
  case True
  then show ?thesis
    by (simp add: pathJoin_def normalize_def normalizeString_def isAbsolute_def)
next
  case False
  with l have lb: "last b \<noteq> CHR ''/''" by simp
  have segs: "pathSegments (''.template'' @ CHR ''/'' # b) = ''.template'' # pathSegments b"
    by (simp only: pathSegments_append) (simp add: pathSegments_def)
  have c': "list_all cleanSegment (pathSegments (''.template'' @ CHR ''/'' # b))"
    using c cleanSegment_template unfolding segs by simp
  have ne': "pathSegments (''.template'' @ CHR ''/'' # b) \<noteq> []" by (simp only: segs) simp
  have l': "last (''.template'' @ CHR ''/'' # b) \<noteq> CHR ''/''" using lb False by simp
  have na: "\<not> isAbsolute (''.template'' @ CHR ''/'' # b)" by (simp add: isAbsolute_def)
  have "normalize (''.template'' @ CHR ''/'' # b) = joinWith ''/'' (''.template'' # pathSegments b)"
    using normalize_clean[OF c' ne' l'] na by (simp only: segs if_False)
  then show ?thesis using False by (simp add: pathJoin_def)
qed


lemma joinWith_clean:
  assumes c: "list_all cleanSegment segs" and ne: "segs \<noteq> []"
  shows "pathSegments (joinWith ''/'' segs) = segs"
    and "joinWith ''/'' segs \<noteq> []"
    and "last (joinWith ''/'' segs) \<noteq> CHR ''/''"
proof -
  have j: "CHR ''/'' # joinWith ''/'' segs = slashed segs" using ne by (rule slashed_join)
  have "pathSegments (CHR ''/'' # joinWith ''/'' segs) = segs"
    unfolding j using c by (rule pathSegments_slashed)
  then show "pathSegments (joinWith ''/'' segs) = segs" by simp
  then show n: "joinWith ''/'' segs \<noteq> []" using ne by auto
  have "last (CHR ''/'' # joinWith ''/'' segs) \<noteq> CHR ''/''"
    unfolding j using c ne by (rule last_not_slash_clean)
  then show "last (joinWith ''/'' segs) \<noteq> CHR ''/''" using n by simp
qed

lemma literalPattern_append: "literalPattern (a @ b) \<longleftrightarrow> literalPattern a \<and> literalPattern b"
  by (simp add: literalPattern_def)

lemma replacePrefix_literal:
  "literalPattern pat \<Longrightarrow> replacePrefix re pat (pat @ r) = Inr r"
  by (simp add: replacePrefix_def matchPrefix_self)


section \<open>Properties of the directory walk\<close>

lemma fullLocation_Cons:
  "fullLocation location (name # names) = fullLocation (pathJoin [location, name]) names"
  by (simp add: fullLocation_def)

lemma kept_Cons:
  "kept ignore (name # names, n) \<longleftrightarrow> name \<notin> set ignore \<and> kept ignore (names, n)"
  by (auto simp: kept_def)

lemma kept_Dir [simp]: "\<not> kept ignore (names, Dir entries)"
  by (simp add: kept_def)

lemma kept_File: "kept ignore ([name], File c) \<longleftrightarrow> name \<notin> set ignore"
  by (simp add: kept_def)

lemma filter_kept_prefix:
  "filter (kept ignore) (map (\<lambda>(names, n). (name # names, n)) xs) =
     (if name \<in> set ignore then []
      else map (\<lambda>(names, n). (name # names, n)) (filter (kept ignore) xs))"
  by (induction xs) (auto simp: kept_Cons)

lemma map_fullLocation_prefix:
  "map (\<lambda>p. fullLocation location (fst p)) (map (\<lambda>(names, n). (name # names, n)) xs) =
   map (\<lambda>p. fullLocation (pathJoin [location, name]) (fst p)) xs"
  by (induction xs) (auto simp: fullLocation_Cons)

lemma recursive_nodesUnder:
  "recursive ignore location entries =
     map (\<lambda>p. fullLocation location (fst p)) (filter (kept ignore) (nodesUnder entries))"
  "entry ignore location name n =
     map (\<lambda>p. fullLocation location (fst p)) (filter (kept ignore) (nodesAt name n))"
proof (induction ignore location entries and ignore location name n rule: recursive_entry.induct)
  case (1 ignore location)
  show ?case by simp
next
  case (2 ignore location name n entries)
  then show ?case by simp
next
  case (3 ignore location name entries)
  show ?case
  proof (cases "name \<in> set ignore")
    case True
    then show ?thesis by (simp add: filter_kept_prefix)
  next
    case False
    with 3 show ?thesis
      by (simp add: filter_kept_prefix map_fullLocation_prefix del: map_map)
  qed
next
  case (4 ignore location name c)
  show ?case by (simp add: kept_File fullLocation_def)
qed


section \<open>Properties of the program\<close>

lemma andThen_simps [simp]:
  "andThen (Inl e) f = Inl e"
  "andThen (Inr x) f = f x"
  by (simp_all add: andThen_def)

lemma andThen_Inr: "andThen m f = Inr y \<longleftrightarrow> (\<exists>x. m = Inr x \<and> f x = Inr y)"
  by (cases m) simp_all

lemma andThen_Inl: "andThen m f = Inl e \<longleftrightarrow> m = Inl e \<or> (\<exists>x. m = Inr x \<and> f x = Inl e)"
  by (cases m) simp_all

lemma fieldNames [simp]:
  "''source'' \<notin> set builtinNames" "''ignore'' \<notin> set builtinNames"
  "''json'' \<notin> set builtinNames" "''name'' \<notin> set builtinNames"
  "''ignoreKeys'' \<notin> set builtinNames"
  by (simp_all add: builtinNames_def)

lemma get_error: "get v k = Inl e \<Longrightarrow> k \<notin> set builtinNames \<Longrightarrow> e = TypeError"
  by (cases v) (auto simp: inherited_def split: option.splits if_splits)

lemma arrayElements_error: "arrayElements v = Inl e \<Longrightarrow> e = TypeError"
  by (cases v rule: arrayElements.cases) auto

lemma spreadElements_error: "spreadElements v = Inl e \<Longrightarrow> e = TypeError"
  by (cases v rule: spreadElements.cases) auto

lemma asString_error: "asString v = Inl e \<Longrightarrow> e = TypeError"
  by (cases v) auto

lemma mapResult_error:
  "(\<And>x e. f x = Inl e \<Longrightarrow> e = TypeError) \<Longrightarrow> mapResult f xs = Inl e \<Longrightarrow> e = TypeError"
  by (induction xs) (auto split: sum.splits)

lemma mapNames_error: "mapResult (\<lambda>j. get j ''name'') xs = Inl e \<Longrightarrow> e = TypeError"
  by (rule mapResult_error[where f = "\<lambda>j. get j ''name''"]) (auto dest: get_error)

lemma includesStr_error: "includesStr keys k = Inl e \<Longrightarrow> e = TypeError"
  by (cases "(keys, k)" rule: includesStr.cases) auto

lemma omitReduce_error: "omitReduce keys ps prev = Inl e \<Longrightarrow> e = TypeError"
  by (induction keys ps prev rule: omitReduce.induct)
     (auto split: sum.splits bool.splits dest: includesStr_error)

lemma objectKeys_error: "objectKeys v = Inl e \<Longrightarrow> e = TypeError"
  by (cases v) auto

lemma omit_error: "omit keys obj = Inl e \<Longrightarrow> e = TypeError"
  by (auto simp: omit_def split: sum.splits dest: objectKeys_error omitReduce_error)

lemma templateFile_error: "templateFile re f l = Inl e \<Longrightarrow> e = SyntaxError"
  by (auto simp: templateFile_def replacePrefix_def split: sum.splits option.splits if_splits)

lemma config_error:
  "config E fs location = Inl e \<Longrightarrow> e = TypeError \<or> e = Error ''config is missing source''"
  by (auto simp: config_def Let_def andThen_Inl split: if_splits
      dest: get_error arrayElements_error spreadElements_error mapNames_error)

lemma clone_execs:
  "clone E w repo location = (r, w1) \<Longrightarrow> execs w1 = execs w @ [(repo, location)]"
  by (auto simp: clone_def Let_def split: prod.splits)

lemma clone_error: "clone E w repo location = (Inl e, w1) \<Longrightarrow> e = ExecError"
  by (auto simp: clone_def Let_def split: prod.splits if_splits)

lemma mergeJsonFile_invalid:
  assumes "cmd \<noteq> COMMIT" "cmd \<noteq> PULL"
  shows "snd (mergeJsonFile E fs location cmd jsonFile) = fs"
    and "fst (mergeJsonFile E fs location cmd jsonFile) = Inl e \<Longrightarrow> e = TypeError \<or> e = SyntaxError"
  using assms
  by (auto simp: mergeJsonFile_def Let_def andThen_Inl split: sum.splits prod.splits
      dest: get_error asString_error omit_error templateFile_error)


lemma mergeJsonFiles_invalid:
  assumes "cmd \<noteq> COMMIT" "cmd \<noteq> PULL"
  shows "snd (mergeJsonFiles E fs location cmd jsonFiles) = fs
       \<and> (\<forall>e. fst (mergeJsonFiles E fs location cmd jsonFiles) = Inl e \<longrightarrow> e = TypeError \<or> e = SyntaxError)"
proof (induction jsonFiles)
  case Nil
  show ?case by simp
next
  case (Cons jf rest)
  obtain r fs' where m: "mergeJsonFile E fs location cmd jf = (r, fs')"
    by (cases "mergeJsonFile E fs location cmd jf")
  with mergeJsonFile_invalid(1)[OF assms, of E fs location jf] have fs': "fs' = fs" by simp
  show ?case
  proof (cases r)
    case (Inl e)
    with mergeJsonFile_invalid(2)[OF assms, of E fs location jf e] m fs'
    show ?thesis by simp
  next
    case (Inr u)
    with m fs' Cons show ?thesis by simp
  qed
qed

lemma mergeJson_invalid:
  assumes "cmd \<noteq> COMMIT" "cmd \<noteq> PULL"
  shows "snd (mergeJson E fs json location cmd) = fs"
    and "fst (mergeJson E fs json location cmd) = Inl e \<Longrightarrow> e = TypeError \<or> e = SyntaxError"
  using mergeJsonFiles_invalid[OF assms, of E fs location]
  by (auto simp: mergeJson_def split: sum.splits dest: arrayElements_error)


section \<open>The merge of one file in the scenario\<close>

lemma tf: "templateFile re ''/proj/pkg.json'' ''/proj'' = Inr ''/proj/.template/pkg.json''"
  by code_simp

lemma seg1: "segments E ''/proj/pkg.json'' = [''proj'', ''pkg.json'']"
  by code_simp

lemma seg2: "segments E ''/proj/.template/pkg.json'' = [''proj'', ''.template'', ''pkg.json'']"
  by code_simp

lemma elems: "arrayElements (orEmpty (pkgSpec keys)) = Inr [Obj Plain [(''name'', Str ''pkg.json''), (''ignoreKeys'', keys)]]"
  by code_simp

lemma rd1: "readFile E (scenarioFs ct pt tt) ''/proj/pkg.json'' = Inr pt"
  by code_simp

lemma rd2: "readFile E (scenarioFs ct pt tt) ''/proj/.template/pkg.json'' = Inr tt"
  by code_simp

lemma w1: "writeJson E (scenarioFs ct pt tt) ''/proj/.template/pkg.json'' v = (Inr (), scenarioFs ct pt (jsonStringify E v))"
  by code_simp



lemma pj: "pathJoin [''/proj'', ''pkg.json''] = ''/proj/pkg.json''"
  by code_simp

lemma getk: "get (Obj Plain [(''name'', Str ''pkg.json''), (''ignoreKeys'', keys)]) ''ignoreKeys'' = Inr keys"
  "get (Obj Plain [(''name'', Str ''pkg.json''), (''ignoreKeys'', keys)]) ''name'' = Inr (Str ''pkg.json'')"
  by simp_all

lemma rj:
  "jsonParse E pt = Some P \<Longrightarrow> readJson E (scenarioFs ct pt tt) ''/proj/pkg.json'' = P"
  "jsonParse E tt = Some T \<Longrightarrow> readJson E (scenarioFs ct pt tt) ''/proj/.template/pkg.json'' = T"
  by (simp_all add: readJson_def rd1 rd2)

lemma mergeJson_scenario_commit:
  assumes "jsonParse E pt = Some P" "jsonParse E tt = Some T"
    and "omit keys P = Inr iP" "omit keys T = Inr iT" "deepMerge T iP = Inr (r, s)"
  shows "mergeJson E (scenarioFs ct pt tt) (pkgSpec keys) ''/proj'' COMMIT
           = (Inr (), scenarioFs ct pt (jsonStringify E r))"
  using assms
  by (simp add: mergeJson_def elems mergeJsonFile_def getk pj tf rj w1 del: get.simps)


lemma mergeJson_scenario_commit_throws:
  assumes "jsonParse E pt = Some P" "jsonParse E tt = Some T"
    and "omit keys P = Inr iP" "omit keys T = Inr iT" "deepMerge T iP = Inl e"
  shows "mergeJson E (scenarioFs ct pt tt) (pkgSpec keys) ''/proj'' COMMIT
           = (Inl e, scenarioFs ct pt tt)"
  using assms
  by (simp add: mergeJson_def elems mergeJsonFile_def getk pj tf rj del: get.simps)











lemma tableEnv_round_trip:
  assumes d: "distinct (map fst docs)" and t: "jsonStringify (tableEnv docs g) v = t" and ne: "t \<noteq> []"
  shows "jsonParse (tableEnv docs g) t = Some v"
proof -
  from t ne obtain doc where f: "find (\<lambda>d. snd d = v) docs = Some doc" and fd: "fst doc = t"
    by (auto simp: tableEnv_def tableStringify_def split: option.splits)
  from f have "doc \<in> set docs" and "snd doc = v" by (auto simp: find_Some_iff)
  with fd have "(t, v) \<in> set docs" by (cases doc) auto
  with d have "map_of docs t = Some v" by simp
  then show ?thesis by (simp add: tableEnv_def)
qed


section \<open>deepMerge\<close>




text \<open>
  C2. The claim: when a key of \<open>source\<close> holds an object and \<open>target\<close> has no entry for
  it, the absent entry is treated as an empty object and the result at the key is the
  value of \<open>source\<close>. The code passes \<open>target[key]\<close>, which is \<open>undefined\<close>, to the
  recursive call, and \<open>Object.assign(undefined, ...)\<close> throws: \<open>deepMerge({}, {"a": {"x": 1}})\<close>
  ends in a TypeError, while with an empty object in place, \<open>deepMerge({"a": {}}, {"a": {"x": 1}})\<close>,
  it returns \<open>{"a": {"x": 1}}\<close>.
\<close>

theorem deepMerge_absent_target_entry:
  "deepMerge (Obj Plain []) (Obj Plain [(''a'', Obj Plain [(''x'', Num 1)])]) = Inl TypeError
   \<and> deepMerge (Obj Plain [(''a'', Obj Plain [])]) (Obj Plain [(''a'', Obj Plain [(''x'', Num 1)])])
       = Inr (Obj Plain [(''a'', Obj Plain [(''x'', Num 1)])],
              Obj Plain [(''a'', Obj Plain [(''x'', Num 1)])])"
  by code_simp





section \<open>The path mappings\<close>

text \<open>
  C6. The claim: for every path \<open>p\<close> that has \<open>projectRoot\<close> as a prefix,
  \<open>normalFile(templateFile(p, projectRoot), projectRoot/.template, projectRoot)\<close> is \<open>p\<close>,
  and \<open>templateFile\<close> replaces exactly the leading \<open>projectRoot\<close> by the root of the
  template cache. It fails for a path that is not normalized, since \<open>path.join\<close>
  normalizes: \<open>/proj/a//b\<close> comes back as \<open>/proj/a/b\<close>. It also fails when the root is a
  prefix of the string but not of the path: for \<open>/project/x\<close> and the root \<open>/proj\<close> the
  result is \<open>/proj/.template/ect/x\<close>.
\<close>

theorem path_mapping_counterexample:
  "templateFile (\<lambda>pat s. None) ''/proj/a//b'' ''/proj'' = Inr ''/proj/.template/a/b''
   \<and> normalFile (\<lambda>pat s. None) ''/proj/.template/a/b'' (pathJoin [''/proj'', ''.template''])
        ''/proj'' = Inr ''/proj/a/b''
   \<and> ''/proj/a/b'' \<noteq> ''/proj/a//b''
   \<and> templateFile (\<lambda>pat s. None) ''/project/x'' ''/proj'' = Inr ''/proj/.template/ect/x''"
  by code_simp

text \<open>
  C6, amended. Let the project root be the absolute path with the clean segments \<open>rs\<close>,
  free of characters that are special in a regular expression (a dot is harmless), and
  let \<open>p\<close> be the root followed by clean segments \<open>rel\<close>. Then \<open>templateFile\<close> maps \<open>p\<close>
  to the root, \<open>.template\<close>, and \<open>rel\<close>; and \<open>normalFile\<close>, given the template directory
  that \<open>main\<close> computes, maps that path back to \<open>p\<close>. Both functions are functions of
  their string arguments (and of the regular expression engine) alone: they take no
  file system.
\<close>

theorem path_mapping_inverse:
  assumes rs: "list_all cleanSegment rs" and rel: "list_all cleanSegment rel"
    and lit: "literalPattern (absPath rs)"
  shows "templateFile re (absPath (rs @ rel)) (absPath rs) = Inr (absPath (rs @ ''.template'' # rel))
       \<and> normalFile re (absPath (rs @ ''.template'' # rel)) (pathJoin [absPath rs, ''.template''])
            (absPath rs) = Inr (absPath (rs @ rel))"
proof -
  define chopped where
    "chopped = (if rs = [] then (if rel = [] then [] else joinWith ''/'' rel) else slashed rel)"
  have fl: "absPath (rs @ rel) = absPath rs @ chopped"
    using slashed_join[of rel]
    by (auto simp: chopped_def absPath_def slashed_append) (simp add: slashed_def)
  have cs: "pathSegments chopped = rel"
    using rel joinWith_clean(1)[OF rel] by (auto simp: chopped_def pathSegments_slashed)
  have cl: "chopped = [] \<or> last chopped \<noteq> CHR ''/''"
    using joinWith_clean(3)[OF rel] last_not_slash_clean[OF rel]
    by (cases "rel = []") (auto simp: chopped_def slashed_def)
  have ct: "list_all cleanSegment (''.template'' # rel)"
    using rel cleanSegment_template by simp
  have inner: "pathJoin [''.template'', chopped] = joinWith ''/'' (''.template'' # rel)"
    using pathJoin_template[of chopped] rel cl by (simp add: cs)
  have outer: "pathJoin [absPath rs, joinWith ''/'' (''.template'' # rel)]
                 = absPath (rs @ ''.template'' # rel)"
    using pathJoin_root[OF rs, of "joinWith ''/'' (''.template'' # rel)"]
      joinWith_clean[OF ct] ct by simp
  have tf: "templateFile re (absPath (rs @ rel)) (absPath rs) = Inr (absPath (rs @ ''.template'' # rel))"
    by (simp add: templateFile_def fl replacePrefix_literal[OF lit] inner outer)
  have tdir: "pathJoin [absPath rs, ''.template''] = absPath (rs @ [''.template''])"
    using pathJoin_root[OF rs, of "''.template''"] cleanSegment_template
    by (simp add: pathSegments_def)
  have "literalPattern (slashed rs)" using lit by (cases "rs = []") (simp_all add: absPath_def slashed_def literalPattern_def)
  then have lit': "literalPattern (absPath (rs @ [''.template'']))"
    by (simp add: absPath_def slashed_append literalPattern_append)
       (simp add: slashed_def literalPattern_def metaChars_def)
  have tfile: "absPath (rs @ ''.template'' # rel) = absPath (rs @ [''.template'']) @ slashed rel"
    by (simp add: absPath_def slashed_append slashed_Cons) (simp add: slashed_def)
  have sl: "slashed rel = [] \<or> last (slashed rel) \<noteq> CHR ''/''"
    using last_not_slash_clean[OF rel] by (cases "rel = []") (simp_all add: slashed_def)
  have sc: "list_all cleanSegment (pathSegments (slashed rel))"
    using rel by (simp add: pathSegments_slashed)
  have bck: "pathJoin [absPath rs, slashed rel] = absPath (rs @ rel)"
    using pathJoin_root[OF rs sc sl] rel by (simp add: pathSegments_slashed)
  have nf: "normalFile re (absPath (rs @ ''.template'' # rel)) (pathJoin [absPath rs, ''.template''])
            (absPath rs) = Inr (absPath (rs @ rel))"
    by (simp add: normalFile_def tdir tfile replacePrefix_literal[OF lit'] bck)
  from tf nf show ?thesis by simp
qed

theorem path_mapping_inverse_witness:
  "list_all cleanSegment [''proj''] \<and> list_all cleanSegment [''src'', ''a.ts'']
   \<and> literalPattern ''/proj''
   \<and> templateFile (\<lambda>pat s. None) ''/proj/src/a.ts'' ''/proj'' = Inr ''/proj/.template/src/a.ts''
   \<and> normalFile (\<lambda>pat s. None) ''/proj/.template/src/a.ts'' ''/proj/.template'' ''/proj''
       = Inr ''/proj/src/a.ts''"
proof -
  have rs: "list_all cleanSegment [''proj'']" by (simp add: cleanSegment_def)
  have rel: "list_all cleanSegment [''src'', ''a.ts'']" by (simp add: cleanSegment_def)
  have p: "absPath [''proj''] = ''/proj''" by (simp add: absPath_def slashed_def)
  have lit: "literalPattern (absPath [''proj''])"
    by (simp add: p literalPattern_def metaChars_def)
  have f: "absPath ([''proj''] @ [''src'', ''a.ts'']) = ''/proj/src/a.ts''"
    by (simp add: absPath_def slashed_def)
  have t: "absPath ([''proj''] @ ''.template'' # [''src'', ''a.ts'']) = ''/proj/.template/src/a.ts''"
    by (simp add: absPath_def slashed_def)
  have d: "pathJoin [''/proj'', ''.template''] = ''/proj/.template''" by code_simp
  from path_mapping_inverse[OF rs rel lit, of "\<lambda>pat s. None"] rs rel lit
  show ?thesis by (simp only: p f t d)
qed


section \<open>The directory walk\<close>

text \<open>
  C9. The claim: the walk returns no path that passes through a directory whose basename
  is in the ignore set, excludes any file whose basename is in the ignore set, and
  returns only files. The names are tested for the entries below the root only, not for
  the root: \<open>main\<close> itself, for \<open>pull\<close>, walks \<open>/proj/.template\<close> with \<open>.template\<close>
  in the ignore set, and every path returned passes through that directory.
\<close>

theorem files_ignored_root_counterexample:
  "files (tableEnv [] (checkout (Dir [])))
     (Dir [(''proj'', Dir [(''.template'', Dir [(''a.txt'', File ''text'')])])])
     ''/proj/.template'' [''.git'', ''.template'']
     = Inr [''/proj/.template/a.txt'']
   \<and> ''.template'' \<in> set [''.git'', ''.template'']
   \<and> ''.template'' \<in> set (pathSegments (dirname ''/proj/.template/a.txt''))"
  by code_simp

text \<open>
  C9, amended. The walk of a directory returns exactly the files below it that are reached
  through names outside the ignore set: a returned path is the location of the root
  joined with the names of directories below the root and the name of a file, none of
  them in the ignore set. So an ignored directory below the root prunes its whole
  subtree, at any depth, a file with an ignored basename is left out, and no directory is
  returned. The names of the root and of its ancestors are not tested.
\<close>

theorem files_excludes_ignored:
  assumes "files E fs location ignore = Inr paths"
  shows "\<exists>entries. readdir E fs location = Inr entries
           \<and> set paths = (\<lambda>p. fullLocation location (fst p)) ` {p \<in> set (nodesUnder entries). kept ignore p}"
proof -
  from assms obtain entries where r: "readdir E fs location = Inr entries"
    and p: "paths = recursive ignore location entries"
    by (auto simp: files_def split: sum.splits)
  have "set paths = (\<lambda>p. fullLocation location (fst p)) ` {p \<in> set (nodesUnder entries). kept ignore p}"
    unfolding p recursive_nodesUnder(1) by simp
  with r show ?thesis by blast
qed

text \<open>
  The theorem at a project with an ignored directory \<open>node_modules\<close>, at the top and
  inside \<open>src\<close>, and an ignored file \<open>pkg.json\<close>.
\<close>

theorem files_excludes_ignored_witness:
  "files (tableEnv [] (checkout (Dir [])))
     (Dir [(''proj'', Dir [(''pkg.json'', File ''p''),
                           (''node_modules'', Dir [(''m.js'', File ''m'')]),
                           (''src'', Dir [(''a.ts'', File ''a''),
                                          (''node_modules'', Dir [(''n.js'', File ''n'')]),
                                          (''lib'', Dir [(''b.ts'', File ''b'')])])])])
     ''/proj'' [''node_modules'', ''pkg.json'']
     = Inr [''/proj/src/a.ts'', ''/proj/src/lib/b.ts'']
   \<and> (\<exists>entries.
         readdir (tableEnv [] (checkout (Dir [])))
           (Dir [(''proj'', Dir [(''pkg.json'', File ''p''),
                           (''node_modules'', Dir [(''m.js'', File ''m'')]),
                           (''src'', Dir [(''a.ts'', File ''a''),
                                          (''node_modules'', Dir [(''n.js'', File ''n'')]),
                                          (''lib'', Dir [(''b.ts'', File ''b'')])])])])
           ''/proj'' = Inr entries
         \<and> set [''/proj/src/a.ts'', ''/proj/src/lib/b.ts'']
             = (\<lambda>p. fullLocation ''/proj'' (fst p))
                 ` {p \<in> set (nodesUnder entries). kept [''node_modules'', ''pkg.json''] p})"
proof -
  let ?E = "tableEnv [] (checkout (Dir []))"
  let ?fs = "Dir [(''proj'', Dir [(''pkg.json'', File ''p''),
                           (''node_modules'', Dir [(''m.js'', File ''m'')]),
                           (''src'', Dir [(''a.ts'', File ''a''),
                                          (''node_modules'', Dir [(''n.js'', File ''n'')]),
                                          (''lib'', Dir [(''b.ts'', File ''b'')])])])]"
  have e: "files ?E ?fs ''/proj'' [''node_modules'', ''pkg.json'']
             = Inr [''/proj/src/a.ts'', ''/proj/src/lib/b.ts'']"
    by code_simp
  from files_excludes_ignored[OF e] e show ?thesis by simp
qed


section \<open>The command and the configuration\<close>

text \<open>
  C8. When the loaded configuration has no \<open>source\<close> field, \<open>config\<close> fails with the
  error \<open>config is missing source\<close>, and so does \<open>main\<close>, which leaves the world as it
  found it: the file system is unchanged and no \<open>git clone\<close> has run. The loaded
  configuration is what \<open>readJson\<close> returns for \<open>template.json\<close>, the empty object when
  the file cannot be read or parsed.
\<close>

theorem config_missing_source:
  assumes "get (readJson E (root w) (pathJoin [location, ''template.json''])) ''source'' = Inr Undefined"
  shows "config E (root w) location = Inl (Error ''config is missing source'')
       \<and> main E w location cmd = (Inl (Error ''config is missing source''), w)"
proof -
  have "config E (root w) location = Inl (Error ''config is missing source'')"
    using assms by (simp add: config_def Let_def)
  then show ?thesis by (simp add: main_def)
qed

text \<open>The theorem at a project whose \<open>template.json\<close> is \<open>{"json": []}\<close>.\<close>

theorem config_missing_source_witness:
  "get (readJson (tableEnv [(''<config>'', Obj Plain [(''json'', Obj Array [])])] (checkout (Dir [])))
         (root \<lparr>root = scenarioFs ''<config>'' ''<project>'' ''<template>'', execs = []\<rparr>)
         (pathJoin [''/proj'', ''template.json''])) ''source'' = Inr Undefined
   \<and> config (tableEnv [(''<config>'', Obj Plain [(''json'', Obj Array [])])] (checkout (Dir [])))
         (root \<lparr>root = scenarioFs ''<config>'' ''<project>'' ''<template>'', execs = []\<rparr>) ''/proj''
       = Inl (Error ''config is missing source'')
   \<and> main (tableEnv [(''<config>'', Obj Plain [(''json'', Obj Array [])])] (checkout (Dir [])))
         \<lparr>root = scenarioFs ''<config>'' ''<project>'' ''<template>'', execs = []\<rparr> ''/proj'' ''commit''
       = (Inl (Error ''config is missing source''),
          \<lparr>root = scenarioFs ''<config>'' ''<project>'' ''<template>'', execs = []\<rparr>)"
proof -
  let ?E = "tableEnv [(''<config>'', Obj Plain [(''json'', Obj Array [])])] (checkout (Dir []))"
  let ?w = "\<lparr>root = scenarioFs ''<config>'' ''<project>'' ''<template>'', execs = []\<rparr>"
  have h: "get (readJson ?E (root ?w) (pathJoin [''/proj'', ''template.json''])) ''source''
             = Inr Undefined"
    by code_simp
  from config_missing_source[OF h, of "''commit''"] h show ?thesis by simp
qed

text \<open>
  C10. For a command that is neither \<open>commit\<close> nor \<open>pull\<close>, \<open>mergeJson\<close> leaves the file
  system as it found it, whether it returns or throws. So the world that \<open>main\<close> leaves
  for such a command is the one it was given (when \<open>config\<close> fails) or the one that
  \<open>clone\<close> left: the refresh of the template cache is the only change.
\<close>

theorem mergeJson_invalid_writes_nothing:
  assumes c: "cmd \<noteq> COMMIT" and p: "cmd \<noteq> PULL"
  shows "snd (mergeJson E fs json location cmd) = fs
       \<and> (snd (main E w location cmd) = w
          \<or> (\<exists>cfg. config E (root w) location = Inr cfg
                \<and> snd (main E w location cmd) = snd (clone E w (field cfg ''source'') location)))"
proof -
  have m: "snd (mergeJson E fs json location cmd) = fs" for fs json
    using c p by (rule mergeJson_invalid(1))
  have "snd (main E w location cmd) = w
          \<or> (\<exists>cfg. config E (root w) location = Inr cfg
                \<and> snd (main E w location cmd) = snd (clone E w (field cfg ''source'') location))"
  proof (cases "config E (root w) location")
    case (Inl e)
    then show ?thesis by (simp add: main_def)
  next
    case (Inr cfg)
    obtain r w1 where cl: "clone E w (field cfg ''source'') location = (r, w1)"
      by (cases "clone E w (field cfg ''source'') location")
    obtain r2 fs2 where mj: "mergeJson E (root w1) (field cfg ''json'') location cmd = (r2, fs2)"
      by (cases "mergeJson E (root w1) (field cfg ''json'') location cmd")
    with m[of "root w1" "field cfg ''json''"] have fs2: "fs2 = root w1" by simp
    have "snd (main E w location cmd) = w1"
      using Inr cl mj fs2 c p by (cases r; cases r2) (simp_all add: main_def Let_def)
    with Inr cl show ?thesis by simp
  qed
  with m show ?thesis by simp
qed

theorem mergeJson_invalid_writes_nothing_witness:
  "''invalid'' \<noteq> COMMIT \<and> ''invalid'' \<noteq> PULL
   \<and> snd (mergeJson scenarioEnv (scenarioFs ''<config>'' ''<project>'' ''<template>'')
            scenarioJson ''/proj'' ''invalid'')
       = scenarioFs ''<config>'' ''<project>'' ''<template>''
   \<and> snd (main scenarioEnv
            \<lparr>root = scenarioFs ''<config>'' ''<project>'' ''<stale>'', execs = []\<rparr> ''/proj'' ''invalid'')
       = snd (clone scenarioEnv
            \<lparr>root = scenarioFs ''<config>'' ''<project>'' ''<stale>'', execs = []\<rparr>
            (Str ''repo-url'') ''/proj'')"
proof -
  let ?w = "\<lparr>root = scenarioFs ''<config>'' ''<project>'' ''<stale>'', execs = []\<rparr>"
  have c: "''invalid'' \<noteq> COMMIT" by (simp add: COMMIT_def)
  have p: "''invalid'' \<noteq> PULL" by (simp add: PULL_def)
  note th = mergeJson_invalid_writes_nothing[OF c p]
  have a: "snd (mergeJson scenarioEnv (scenarioFs ''<config>'' ''<project>'' ''<template>'')
            scenarioJson ''/proj'' ''invalid'')
       = scenarioFs ''<config>'' ''<project>'' ''<template>''"
    using th[THEN conjunct1] .
  have w: "snd (main scenarioEnv ?w ''/proj'' ''invalid'') \<noteq> ?w" by code_simp
  have s: "config scenarioEnv (root ?w) ''/proj'' = Inr cfg \<Longrightarrow> field cfg ''source'' = Str ''repo-url''"
    for cfg
  proof -
    assume "config scenarioEnv (root ?w) ''/proj'' = Inr cfg"
    moreover have "config scenarioEnv (root ?w) ''/proj''
        = Inr (Obj Plain [(''source'', Str ''repo-url''), (''json'', scenarioJson),
                          (''ignore'', Obj Array [(''0'', Str ''pkg.json''), (''1'', Str ''.git''),
                                                  (''2'', Str ''.template'')])])"
      by code_simp
    ultimately have "cfg = Obj Plain [(''source'', Str ''repo-url''), (''json'', scenarioJson),
                          (''ignore'', Obj Array [(''0'', Str ''pkg.json''), (''1'', Str ''.git''),
                                                  (''2'', Str ''.template'')])]"
      by simp
    then show ?thesis by (simp add: field_def)
  qed
  from th[THEN conjunct2, of scenarioEnv ?w "''/proj''"] w s
  have "snd (main scenarioEnv ?w ''/proj'' ''invalid'')
          = snd (clone scenarioEnv ?w (Str ''repo-url'') ''/proj'')"
    by auto
  with c p a show ?thesis by simp
qed

text \<open>
  C7. For a command that is neither \<open>commit\<close> nor \<open>pull\<close>, \<open>main\<close> never returns
  normally. When the configuration loads, the clone succeeds and the merge phase does
  not throw, it fails with the error \<open>invalid sub-command\<close>, in the world that \<open>clone\<close>
  left, where the \<open>git clone\<close> of the configured source has been executed. And it fails
  with that error only then: the configuration has been loaded and the clone has run
  before the error is raised.
\<close>

theorem main_invalid_command:
  assumes c: "cmd \<noteq> COMMIT" and p: "cmd \<noteq> PULL"
  shows "(\<exists>e. fst (main E w location cmd) = Inl e)
       \<and> (\<forall>cfg w1. config E (root w) location = Inr cfg
             \<and> clone E w (field cfg ''source'') location = (Inr (), w1)
             \<and> fst (mergeJson E (root w1) (field cfg ''json'') location cmd) = Inr ()
           \<longrightarrow> main E w location cmd = (Inl (Error ''invalid sub-command''), w1)
               \<and> execs w1 = execs w @ [(field cfg ''source'', location)])
       \<and> (fst (main E w location cmd) = Inl (Error ''invalid sub-command'') \<longrightarrow>
            (\<exists>cfg w1. config E (root w) location = Inr cfg
               \<and> clone E w (field cfg ''source'') location = (Inr (), w1)
               \<and> snd (main E w location cmd) = w1
               \<and> execs w1 = execs w @ [(field cfg ''source'', location)]))"
proof (cases "config E (root w) location")
  case (Inl e)
  with config_error[OF Inl] show ?thesis by (auto simp: main_def)
next
  case (Inr cfg)
  obtain r w1 where cl: "clone E w (field cfg ''source'') location = (r, w1)"
    by (cases "clone E w (field cfg ''source'') location")
  have ex: "execs w1 = execs w @ [(field cfg ''source'', location)]"
    using cl by (rule clone_execs)
  obtain r2 fs2 where mj: "mergeJson E (root w1) (field cfg ''json'') location cmd = (r2, fs2)"
    by (cases "mergeJson E (root w1) (field cfg ''json'') location cmd")
  with mergeJson_invalid(1)[OF c p, of E "root w1" "field cfg ''json''" location]
  have fs2: "fs2 = root w1" by simp
  show ?thesis
  proof (cases r)
    case (Inl e)
    with cl have "e = ExecError" by (auto dest: clone_error)
    with Inl Inr cl show ?thesis by (simp add: main_def Let_def)
  next
    case ok: (Inr u)
    show ?thesis
    proof (cases r2)
      case (Inl e)
      with mergeJson_invalid(2)[OF c p, of E "root w1" "field cfg ''json''" location e] mj
      have "e = TypeError \<or> e = SyntaxError" by simp
      with Inl Inr ok cl mj fs2 show ?thesis by (auto simp: main_def Let_def)
    next
      case (Inr u2)
      with \<open>config E (root w) location = Inr cfg\<close> ok cl mj fs2 c p ex
      show ?thesis by (simp add: main_def Let_def)
    qed
  qed
qed

text \<open>
  The theorem at the scenario of the specification with the command \<open>invalid\<close>: the stale
  cache has been replaced by the checkout of the template when the error is raised.
\<close>

theorem main_invalid_command_witness:
  "''invalid'' \<noteq> COMMIT \<and> ''invalid'' \<noteq> PULL
   \<and> main scenarioEnv \<lparr>root = scenarioFs ''<config>'' ''<project>'' ''<stale>'', execs = []\<rparr>
        ''/proj'' ''invalid''
       = (Inl (Error ''invalid sub-command''),
          \<lparr>root = scenarioFs ''<config>'' ''<project>'' ''<template>'',
             execs = [(Str ''repo-url'', ''/proj'')]\<rparr>)"
proof -
  let ?w = "\<lparr>root = scenarioFs ''<config>'' ''<project>'' ''<stale>'', execs = []\<rparr>"
  let ?w1 = "\<lparr>root = scenarioFs ''<config>'' ''<project>'' ''<template>'',
                execs = [(Str ''repo-url'', ''/proj'')]\<rparr>"
  let ?cfg = "Obj Plain [(''source'', Str ''repo-url''), (''json'', scenarioJson),
                (''ignore'', Obj Array [(''0'', Str ''pkg.json''), (''1'', Str ''.git''),
                                        (''2'', Str ''.template'')])]"
  have c: "''invalid'' \<noteq> COMMIT" by (simp add: COMMIT_def)
  have p: "''invalid'' \<noteq> PULL" by (simp add: PULL_def)
  have cf: "config scenarioEnv (root ?w) ''/proj'' = Inr ?cfg" by code_simp
  have cl: "clone scenarioEnv ?w (field ?cfg ''source'') ''/proj'' = (Inr (), ?w1)" by code_simp
  have mj: "fst (mergeJson scenarioEnv (root ?w1) (field ?cfg ''json'') ''/proj'' ''invalid'') = Inr ()"
    by code_simp
  from main_invalid_command[OF c p, THEN conjunct2, THEN conjunct1, rule_format, of scenarioEnv ?w "''/proj''" ?cfg ?w1]
    cf cl mj
  have "main scenarioEnv ?w ''/proj'' ''invalid'' = (Inl (Error ''invalid sub-command''), ?w1)"
    by blast
  with c p show ?thesis by simp
qed


section \<open>Merging a JSON file\<close>

text \<open>
  C4. In the scenario of the specification (\<open>pkg.json\<close> listed with the ignored key
  \<open>version\<close>, the project file \<open>{"version": "1.0.0", "name": "app"}\<close>, the template file
  \<open>{"version": "0.9.0", "name": "template-app", "license": "MIT"}\<close>) the merge in the
  direction \<open>commit\<close> writes \<open>{"version": "0.9.0", "name": "app", "license": "MIT"}\<close> to the
  template file and changes nothing else: the ignored key keeps the template's value,
  the shared key takes the project's value, the key of the template alone is kept. This
  holds for every platform whose parser reads the two files as these objects.
\<close>

theorem scenario_commit_merge:
  assumes "jsonParse E projectText = Some scenarioProject"
    and "jsonParse E templateText = Some scenarioTemplate"
  shows "mergeJson E (scenarioFs configText projectText templateText) scenarioJson ''/proj'' COMMIT
           = (Inr (), scenarioFs configText projectText (jsonStringify E scenarioMerged))"
proof -
  have oP: "omit (Obj Array [(''0'', Str ''version'')]) scenarioProject
              = Inr (Obj Plain [(''name'', Str ''app'')])"
    by code_simp
  have oT: "omit (Obj Array [(''0'', Str ''version'')]) scenarioTemplate
              = Inr (Obj Plain [(''name'', Str ''template-app''), (''license'', Str ''MIT'')])"
    by code_simp
  have m: "deepMerge scenarioTemplate (Obj Plain [(''name'', Str ''app'')])
              = Inr (scenarioMerged, Obj Plain [(''name'', Str ''app'')])"
    by code_simp
  show ?thesis
    unfolding scenarioJson_def by (rule mergeJson_scenario_commit[OF assms oP oT m])
qed

text \<open>
  The theorem on the example platform, and the whole \<open>commit\<close> there: a stale cache is
  replaced by the checkout, \<open>pkg.json\<close> in the cache receives the merged object, and
  \<open>template.json\<close>, the one file of the project that is not ignored, is copied.
\<close>

theorem scenario_commit_merge_witness:
  "jsonParse scenarioEnv ''<project>'' = Some scenarioProject
   \<and> jsonParse scenarioEnv ''<template>'' = Some scenarioTemplate
   \<and> mergeJson scenarioEnv (scenarioFs ''<config>'' ''<project>'' ''<template>'') scenarioJson
        ''/proj'' COMMIT
       = (Inr (), scenarioFs ''<config>'' ''<project>'' ''<merged>'')
   \<and> main scenarioEnv \<lparr>root = scenarioFs ''<config>'' ''<project>'' ''<stale>'', execs = []\<rparr>
        ''/proj'' COMMIT
       = (Inr (),
          \<lparr>root = Dir [(''proj'', Dir [(''template.json'', File ''<config>''),
                                       (''pkg.json'', File ''<project>''),
                                       (''.template'',
                                        Dir [(''pkg.json'', File ''<merged>''),
                                             (''template.json'', File ''<config>'')])])],
             execs = [(Str ''repo-url'', ''/proj'')]\<rparr>)"
proof -
  have p: "jsonParse scenarioEnv ''<project>'' = Some scenarioProject" by code_simp
  have t: "jsonParse scenarioEnv ''<template>'' = Some scenarioTemplate" by code_simp
  have s: "jsonStringify scenarioEnv scenarioMerged = ''<merged>''" by code_simp
  have m: "main scenarioEnv \<lparr>root = scenarioFs ''<config>'' ''<project>'' ''<stale>'', execs = []\<rparr>
        ''/proj'' COMMIT
       = (Inr (),
          \<lparr>root = Dir [(''proj'', Dir [(''template.json'', File ''<config>''),
                                       (''pkg.json'', File ''<project>''),
                                       (''.template'',
                                        Dir [(''pkg.json'', File ''<merged>''),
                                             (''template.json'', File ''<config>'')])])],
             execs = [(Str ''repo-url'', ''/proj'')]\<rparr>)"
    by code_simp
  from scenario_commit_merge[OF p t, of "''<config>''"] p t s m show ?thesis by simp
qed




end
